theory Spec2Isabelle
  imports Complex_Main
begin

section \<open>JavaScript values\<close>

text \<open>
  The scripts work on untyped values: parsed JSON, \<^verbatim>\<open>undefined\<close> for a missing property
  and the NaN that \<^verbatim>\<open>parseFloat\<close> gives on non-numeric text. A number is the real it
  denotes (the scripts only test numbers for truthiness, compare them and print them; the
  bounding-box arithmetic of the Overpass query is not modelled). An object is the list of
  its own properties, keys distinct. A string is a list of code units below 256.
\<close>

datatype jsval =
    JUndefined
  | JNull
  | JBool bool
  | JNum real
  | JNaN
  | JStr string
  | JArr "jsval list"
  | JObj "(string \<times> jsval) list"

text \<open>ToBoolean, as \<^verbatim>\<open>if (v)\<close>, \<^verbatim>\<open>!v\<close>, \<^verbatim>\<open>a || b\<close> and \<^verbatim>\<open>filter(Boolean)\<close> apply it.\<close>

fun truthy :: "jsval \<Rightarrow> bool" where
  "truthy JUndefined = False"
| "truthy JNull = False"
| "truthy (JBool b) = b"
| "truthy (JNum r) = (r \<noteq> 0)"
| "truthy JNaN = False"
| "truthy (JStr s) = (s \<noteq> [])"
| "truthy (JArr xs) = True"
| "truthy (JObj kvs) = True"

definition js_or :: "jsval \<Rightarrow> jsval \<Rightarrow> jsval" where
  "js_or a b = (if truthy a then a else b)"

fun nullish :: "jsval \<Rightarrow> bool" where
  "nullish JUndefined = True"
| "nullish JNull = True"
| "nullish v = False"

text \<open>
  \<^verbatim>\<open>v.k\<close> and \<^verbatim>\<open>v['k']\<close> on a value that is neither null nor undefined. The keys the
  scripts read are own properties of parsed objects, or \<^verbatim>\<open>length\<close> of an array or
  string; none of them is inherited from a prototype.
\<close>

fun getProp :: "jsval \<Rightarrow> string \<Rightarrow> jsval" where
  "getProp (JObj kvs) k = (case map_of kvs k of Some v \<Rightarrow> v | None \<Rightarrow> JUndefined)"
| "getProp (JArr xs) k = (if k = ''length'' then JNum (real (length xs)) else JUndefined)"
| "getProp (JStr s) k = (if k = ''length'' then JNum (real (length s)) else JUndefined)"
| "getProp v k = JUndefined"

text \<open>\<^verbatim>\<open>v[0]\<close> on a value that is neither null nor undefined.\<close>

fun index0 :: "jsval \<Rightarrow> jsval" where
  "index0 (JArr xs) = (case xs of [] \<Rightarrow> JUndefined | x # _ \<Rightarrow> x)"
| "index0 (JStr s) = (case s of [] \<Rightarrow> JUndefined | c # _ \<Rightarrow> JStr [c])"
| "index0 (JObj kvs) = (case map_of kvs ''0'' of Some v \<Rightarrow> v | None \<Rightarrow> JUndefined)"
| "index0 v = JUndefined"

text \<open>\<^verbatim>\<open>v?.k\<close>: undefined on null and undefined, the property otherwise.\<close>

definition optProp :: "jsval \<Rightarrow> string \<Rightarrow> jsval" where
  "optProp v k = (if nullish v then JUndefined else getProp v k)"

subsection \<open>Errors\<close>

text \<open>
  What a \<^verbatim>\<open>catch\<close> block of the scripts can receive: a TypeError of the engine (reading a
  property of null or undefined, calling something that is not a function; the argument
  names the property or method), the error Leaflet throws on coordinates it does not
  accept, and an Error object with a message (\<^verbatim>\<open>throw new Error(m)\<close>, or the reason a
  rejected \<^verbatim>\<open>fetch\<close> or \<^verbatim>\<open>response.json()\<close> carries).
\<close>

datatype js_error =
    TypeError string
  | InvalidLatLng jsval jsval
  | ErrorObj string

text \<open>Reading a property where the object may be null or undefined.\<close>

definition readProp :: "jsval \<Rightarrow> string \<Rightarrow> js_error + jsval" where
  "readProp v k = (if nullish v then Inl (TypeError k) else Inr (getProp v k))"

subsection \<open>The browser and the map library\<close>

text \<open>
  Built-ins of the engine and behaviour of the Leaflet library are not code of the
  scripts. They are a parameter of the model: how a number prints, \<^verbatim>\<open>parseFloat\<close>,
  ToNumber, which coordinates Leaflet accepts (\<^verbatim>\<open>map.setView\<close> and \<^verbatim>\<open>L.marker\<close> throw
  on the others), the message text of an engine or library error, and whether
  \<^verbatim>\<open>navigator.geolocation\<close> exists.
\<close>

record externals =
  numberToString :: "real \<Rightarrow> string"
  parseFloat :: "jsval \<Rightarrow> jsval"
  toNumber :: "jsval \<Rightarrow> jsval"
  validLatLng :: "jsval \<Rightarrow> jsval \<Rightarrow> bool"
  engineMessage :: "js_error \<Rightarrow> string"
  hasGeolocation :: bool

text \<open>\<^verbatim>\<open>error.message\<close> in a catch block.\<close>

fun message :: "externals \<Rightarrow> js_error \<Rightarrow> string" where
  "message B (ErrorObj m) = m"
| "message B e = engineMessage B e"

text \<open>\<^verbatim>\<open>Array.prototype.join\<close> on strings.\<close>

fun join :: "string \<Rightarrow> string list \<Rightarrow> string" where
  "join sep [] = []"
| "join sep [x] = x"
| "join sep (x # y # ys) = x @ sep @ join sep (y # ys)"

text \<open>
  ToString, as a template literal \<^verbatim>\<open>`${v}`\<close> and \<^verbatim>\<open>join\<close> apply it. An array prints as
  its elements joined by commas, null and undefined elements as the empty string.
\<close>

fun to_string :: "externals \<Rightarrow> jsval \<Rightarrow> string" where
  "to_string B JUndefined = ''undefined''"
| "to_string B JNull = ''null''"
| "to_string B (JBool b) = (if b then ''true'' else ''false'')"
| "to_string B (JNum r) = numberToString B r"
| "to_string B JNaN = ''NaN''"
| "to_string B (JStr s) = s"
| "to_string B (JArr xs) = join '','' (map (\<lambda>v. if nullish v then [] else to_string B v) xs)"
| "to_string B (JObj kvs) = ''[object Object]''"

text \<open>\<^verbatim>\<open>xs.join(sep)\<close> on an array of values.\<close>

definition join_values :: "externals \<Rightarrow> string \<Rightarrow> jsval list \<Rightarrow> string" where
  "join_values B sep xs = join sep (map (\<lambda>v. if nullish v then [] else to_string B v) xs)"

text \<open>The message of \<^verbatim>\<open>new Error(v)\<close>: empty when \<^verbatim>\<open>v\<close> is undefined.\<close>

definition new_Error :: "externals \<Rightarrow> jsval \<Rightarrow> js_error" where
  "new_Error B v = ErrorObj (if v = JUndefined then [] else to_string B v)"

text \<open>\<^verbatim>\<open>v > 0\<close>.\<close>

definition gt_zero :: "externals \<Rightarrow> jsval \<Rightarrow> bool" where
  "gt_zero B v =
     (case (case v of JNum r \<Rightarrow> JNum r | JNaN \<Rightarrow> JNaN | w \<Rightarrow> toNumber B w) of
        JNum r \<Rightarrow> 0 < r
      | w \<Rightarrow> False)"

text \<open>
  \<^verbatim>\<open>String.prototype.trim\<close> on strings of code units below 256: tab, line feed, vertical
  tab, form feed, carriage return, space and no-break space are removed at both ends.
\<close>

definition js_whitespace :: "char \<Rightarrow> bool" where
  "js_whitespace c = (of_char c \<in> {9, 10, 11, 12, 13, 32, 160 :: nat})"

definition trim :: "string \<Rightarrow> string" where
  "trim s = rev (dropWhile js_whitespace (rev (dropWhile js_whitespace s)))"

text \<open>\<^verbatim>\<open>s.includes(p)\<close>.\<close>

fun js_includes :: "string \<Rightarrow> string \<Rightarrow> bool" where
  "js_includes [] p = (p = [])"
| "js_includes (c # cs) p = (take (length p) (c # cs) = p \<or> js_includes cs p)"

section \<open>The page\<close>

text \<open>
  The globals \<^verbatim>\<open>currentLat\<close> and \<^verbatim>\<open>currentLng\<close>, the layers of \<^verbatim>\<open>markerCluster\<close> (each
  marker as the place it was built from), the text and class of the status element, the
  loading overlay and the text of the city input. Two fields record effects: every
  \<^verbatim>\<open>fetch\<close> issued, in order, and the number of calls of \<^verbatim>\<open>addPizzaMarkers\<close>.

  A request is recorded by its endpoint and by what the scripts put into it: the center
  read from \<^verbatim>\<open>currentLat\<close> and \<^verbatim>\<open>currentLng\<close> for the places endpoint of the Python API
  (\<^verbatim>\<open>/api/pizza-places?lat=&lng=&radius=0.05\<close>) and for the Overpass query (whose box
  is the center plus and minus 0.05), the trimmed city name for \<^verbatim>\<open>/api/search-city\<close> and
  for the Nominatim search.
\<close>

datatype request =
    PizzaPlacesGET jsval jsval
  | OverpassPOST jsval jsval
  | SearchCityGET string
  | NominatimGET string

record app =
  currentLat :: jsval
  currentLng :: jsval
  markers :: "jsval list"
  status :: "string \<times> string"
  loading :: bool
  cityInput :: string
  requests :: "request list"
  renderCalls :: nat

text \<open>
  What awaiting \<^verbatim>\<open>fetch(...)\<close> and then \<^verbatim>\<open>response.json()\<close> gives: a rejection of either
  one, with the message of its reason, or the parsed body.
\<close>

datatype reply = Rejected string | Parsed jsval

text \<open>\<^verbatim>\<open>map.getCenter()\<close> returns a Leaflet LatLng, with numeric fields.\<close>

record latLng =
  latOf :: real
  lngOf :: real

definition showLoading :: "bool \<Rightarrow> app \<Rightarrow> app" where
  "showLoading show s = s\<lparr>loading := show\<rparr>"

definition updateStatus :: "string \<Rightarrow> string \<Rightarrow> app \<Rightarrow> app" where
  "updateStatus msg type s = s\<lparr>status := (msg, type)\<rparr>"

definition fetch :: "request \<Rightarrow> app \<Rightarrow> app" where
  "fetch r s = s\<lparr>requests := requests s @ [r]\<rparr>"

text \<open>
  \<^verbatim>\<open>map.setView([lat, lng], 12)\<close>: the view belongs to the library and is read back only
  through \<^verbatim>\<open>getCenter\<close> and \<^verbatim>\<open>getZoom\<close>, which are inputs of \<^verbatim>\<open>searchCurrentArea\<close>; what
  the scripts can observe of the call is whether it throws.
\<close>

definition setView :: "externals \<Rightarrow> jsval \<Rightarrow> jsval \<Rightarrow> js_error option" where
  "setView B la lo = (if validLatLng B la lo then None else Some (InvalidLatLng la lo))"

text \<open>
  The body of the \<^verbatim>\<open>forEach\<close> of \<^verbatim>\<open>addPizzaMarkers\<close>, place by place:
  \<^verbatim>\<open>createPopupContent\<close> reads \<^verbatim>\<open>place.name\<close> first, \<^verbatim>\<open>L.marker\<close> checks the coordinates,
  \<^verbatim>\<open>addLayer\<close> appends the marker. An exception leaves the markers added so far.
\<close>

fun forEachPlace :: "externals \<Rightarrow> jsval list \<Rightarrow> app \<Rightarrow> js_error option \<times> app" where
  "forEachPlace B [] s = (None, s)"
| "forEachPlace B (place # rest) s =
     (if nullish place then (Some (TypeError ''name''), s)
      else if \<not> validLatLng B (getProp place ''lat'') (getProp place ''lng'')
      then (Some (InvalidLatLng (getProp place ''lat'') (getProp place ''lng'')), s)
      else forEachPlace B rest (s\<lparr>markers := markers s @ [place]\<rparr>))"

definition addPizzaMarkers :: "externals \<Rightarrow> jsval \<Rightarrow> app \<Rightarrow> js_error option \<times> app" where
  "addPizzaMarkers B places s =
     (let s1 = s\<lparr>markers := [], renderCalls := renderCalls s + 1\<rparr> in
      case places of
        JArr ps \<Rightarrow> forEachPlace B ps s1
      | v \<Rightarrow> (Some (TypeError ''forEach''), s1))"

text \<open>\<^verbatim>\<open>buildAddress\<close> (lines 618-624).\<close>

definition buildAddress :: "externals \<Rightarrow> jsval \<Rightarrow> string" where
  "buildAddress B tags =
     (let parts = [];
          parts = (if truthy (getProp tags ''addr:housenumber'')
                   then parts @ [getProp tags ''addr:housenumber''] else parts);
          parts = (if truthy (getProp tags ''addr:street'')
                   then parts @ [getProp tags ''addr:street''] else parts);
          parts = (if truthy (getProp tags ''addr:city'')
                   then parts @ [getProp tags ''addr:city''] else parts);
          joined = join_values B '', '' parts
      in if joined \<noteq> [] then joined else [])"

text \<open>
  \<^verbatim>\<open>addPizzaMarkers(places)\<close> followed by the status line that counts the places: the two
  statements that end the try block of every \<^verbatim>\<open>loadPizzaPlaces\<close> (lines 91-92, 383-384,
  608-609). When \<^verbatim>\<open>addPizzaMarkers\<close> has returned, \<^verbatim>\<open>places\<close> is an array.
\<close>

definition showPlaces :: "externals \<Rightarrow> jsval \<Rightarrow> app \<Rightarrow> js_error option \<times> app" where
  "showPlaces B places s =
     (case addPizzaMarkers B places s of
        (Some e, s1) \<Rightarrow> (Some e, s1)
      | (None, s1) \<Rightarrow>
          (None, updateStatus (''Found '' @ to_string B (getProp places ''length'')
                                 @ '' pizza places!'') ''success'' s1))"

text \<open>\<^verbatim>\<open>Array.prototype.map\<close> with a callback that may throw: the first exception ends it.\<close>

fun mapArray :: "('a \<Rightarrow> js_error + 'b) \<Rightarrow> 'a list \<Rightarrow> js_error + 'b list" where
  "mapArray f [] = Inr []"
| "mapArray f (x # xs) =
     (case f x of
        Inl e \<Rightarrow> Inl e
      | Inr y \<Rightarrow> (case mapArray f xs of Inl e \<Rightarrow> Inl e | Inr ys \<Rightarrow> Inr (y # ys)))"

text \<open>
  \<^verbatim>\<open>useCurrentLocation\<close> (lines 185-201 and 734-750, the same text) up to the call of
  \<^verbatim>\<open>getCurrentPosition\<close>, and its error callback. The success callback calls the
  \<^verbatim>\<open>updateLocation\<close> of its script and is defined with it.
\<close>

definition useCurrentLocation :: "externals \<Rightarrow> app \<Rightarrow> app" where
  "useCurrentLocation B s =
     (if hasGeolocation B then updateStatus ''Getting your location...'' [] s
      else updateStatus ''Geolocation not supported'' ''error'' s)"

definition geolocationDenied :: "app \<Rightarrow> app" where
  "geolocationDenied s = updateStatus ''Location access denied'' ''error'' s"

subsection \<open>The script that calls the Python API (lines 1-215)\<close>

text \<open>
  An async function is two definitions: the statements up to the first \<^verbatim>\<open>await\<close>, which
  run when it is called, and the rest, which runs when \<^verbatim>\<open>fetch\<close> and \<^verbatim>\<open>response.json()\<close>
  have settled (nothing of the function runs between the two awaits).
\<close>

definition loadPizzaPlaces_api :: "app \<Rightarrow> app" where
  "loadPizzaPlaces_api s =
     (let s = showLoading True s;
          s = updateStatus ''Loading pizza places from API...'' [] s
      in fetch (PizzaPlacesGET (currentLat s) (currentLng s)) s)"

definition loadPizzaPlaces_api_try :: "externals \<Rightarrow> reply \<Rightarrow> app \<Rightarrow> js_error option \<times> app" where
  "loadPizzaPlaces_api_try B r s =
     (case r of
        Rejected m \<Rightarrow> (Some (ErrorObj m), s)
      | Parsed data \<Rightarrow>
          (case readProp data ''success'' of
             Inl e \<Rightarrow> (Some e, s)
           | Inr success \<Rightarrow>
               if \<not> truthy success
               then (None, updateStatus (''Error: '' @ to_string B (getProp data ''error''))
                             ''error'' s)
               else showPlaces B (getProp data ''places'') s))"

definition loadPizzaPlaces_api_settled :: "externals \<Rightarrow> reply \<Rightarrow> app \<Rightarrow> app" where
  "loadPizzaPlaces_api_settled B r s =
     (case loadPizzaPlaces_api_try B r s of
        (None, s1) \<Rightarrow> showLoading False s1
      | (Some e, s1) \<Rightarrow>
          showLoading False (updateStatus (''Error: '' @ message B e) ''error'' s1))"

definition updateLocation_api :: "externals \<Rightarrow> jsval \<Rightarrow> jsval \<Rightarrow> app \<Rightarrow> js_error option \<times> app" where
  "updateLocation_api B lat lng s =
     (let s = s\<lparr>currentLat := lat, currentLng := lng\<rparr> in
      case setView B lat lng of
        Some e \<Rightarrow> (Some e, s)
      | None \<Rightarrow> (None, loadPizzaPlaces_api s))"

definition searchCity_api :: "app \<Rightarrow> app" where
  "searchCity_api s =
     (let cityName = trim (cityInput s) in
      if cityName = [] then updateStatus ''Please enter a city name'' ''error'' s
      else fetch (SearchCityGET cityName) (updateStatus ''Searching for city...'' [] s))"

definition searchCity_api_try :: "externals \<Rightarrow> reply \<Rightarrow> app \<Rightarrow> js_error option \<times> app" where
  "searchCity_api_try B r s =
     (case r of
        Rejected m \<Rightarrow> (Some (ErrorObj m), s)
      | Parsed data \<Rightarrow>
          (case readProp data ''success'' of
             Inl e \<Rightarrow> (Some e, s)
           | Inr success \<Rightarrow>
               if \<not> truthy success
               then (None, updateStatus (''City search error: ''
                             @ to_string B (getProp data ''error'')) ''error'' s)
               else (case updateLocation_api B (getProp data ''lat'') (getProp data ''lng'') s of
                       (Some e, s1) \<Rightarrow> (Some e, s1)
                     | (None, s1) \<Rightarrow>
                         (None, updateStatus (''Found '' @ to_string B (getProp data ''city''))
                                  ''success'' s1))))"

definition searchCity_api_settled :: "externals \<Rightarrow> reply \<Rightarrow> app \<Rightarrow> app" where
  "searchCity_api_settled B r s =
     (case searchCity_api_try B r s of
        (None, s1) \<Rightarrow> s1
      | (Some e, s1) \<Rightarrow> updateStatus (''City search error: '' @ message B e) ''error'' s1)"

text \<open>The success callback of \<^verbatim>\<open>useCurrentLocation\<close>, called with the position's coordinates.\<close>

definition geolocationFound_api :: "externals \<Rightarrow> real \<Rightarrow> real \<Rightarrow> app \<Rightarrow> js_error option \<times> app" where
  "geolocationFound_api B latitude longitude s =
     updateLocation_api B (JNum latitude) (JNum longitude) s"

text \<open>
  \<^verbatim>\<open>searchCurrentArea\<close> (lines 203-215), given what \<^verbatim>\<open>map.getCenter()\<close> and
  \<^verbatim>\<open>map.getZoom()\<close> return.
\<close>

definition searchCurrentArea_api :: "latLng \<Rightarrow> real \<Rightarrow> app \<Rightarrow> app" where
  "searchCurrentArea_api center zoom s =
     (if zoom < 10
      then updateStatus ''Please zoom in more to search a smaller area'' ''error'' s
      else (let s = s\<lparr>currentLat := JNum (latOf center)\<rparr>;
                s = s\<lparr>currentLng := JNum (lngOf center)\<rparr>;
                s = updateStatus ''Searching pizza places in current area...'' [] s
            in loadPizzaPlaces_api s))"

subsection \<open>The script configured by \<^verbatim>\<open>API_BASE\<close> (lines 216-498)\<close>

text \<open>
  \<^verbatim>\<open>API_BASE\<close> is a constant of the script, one of three the file lists; it is a parameter
  here. \<^verbatim>\<open>buildAddress\<close> is not in the part of this script that the repository holds; the
  definition above, from the Overpass script, is used.
\<close>

definition usesOverpass :: "string \<Rightarrow> bool" where
  "usesOverpass API_BASE = js_includes API_BASE ''overpass-api.de''"

definition loadPizzaPlaces_cfg :: "string \<Rightarrow> app \<Rightarrow> app" where
  "loadPizzaPlaces_cfg API_BASE s =
     (let s = showLoading True s;
          s = updateStatus ''Loading pizza places...'' [] s
      in if usesOverpass API_BASE
         then fetch (OverpassPOST (currentLat s) (currentLng s)) s
         else fetch (PizzaPlacesGET (currentLat s) (currentLng s)) s)"

text \<open>The object literal of lines 353-367, for an element that is not null or undefined.\<close>

definition place_cfg :: "externals \<Rightarrow> jsval \<Rightarrow> jsval \<Rightarrow> jsval \<Rightarrow> jsval" where
  "place_cfg B el lat lng =
     (let tags = js_or (getProp el ''tags'') (JObj []) in
      JObj [(''id'', getProp el ''id''),
            (''lat'', lat),
            (''lng'', lng),
            (''name'', js_or (getProp tags ''name'') (JStr ''Pizza Place'')),
            (''cuisine'', js_or (getProp tags ''cuisine'') (JStr ''pizza'')),
            (''amenity'', js_or (getProp tags ''amenity'')
                            (js_or (getProp tags ''shop'') (JStr ''restaurant''))),
            (''phone'', js_or (getProp tags ''phone'') (JStr [])),
            (''website'', js_or (getProp tags ''website'') (JStr [])),
            (''address'', JStr (buildAddress B tags)),
            (''opening_hours'', js_or (getProp tags ''opening_hours'') (JStr [])),
            (''takeaway'', js_or (getProp tags ''takeaway'') (JStr [])),
            (''delivery'', js_or (getProp tags ''delivery'') (JStr []))])"

text \<open>The callback of \<^verbatim>\<open>map\<close> (lines 341-368); \<^verbatim>\<open>JNull\<close> is its \<^verbatim>\<open>return null\<close>.\<close>

definition normalizeElement_cfg :: "externals \<Rightarrow> jsval \<Rightarrow> js_error + jsval" where
  "normalizeElement_cfg B el =
     (if nullish el then Inl (TypeError ''lat'')
      else if truthy (getProp el ''lat'') \<and> truthy (getProp el ''lon'')
      then Inr (place_cfg B el (getProp el ''lat'') (getProp el ''lon''))
      else if truthy (getProp el ''center'')
      then Inr (place_cfg B el (getProp (getProp el ''center'') ''lat'')
                               (getProp (getProp el ''center'') ''lon''))
      else Inr JNull)"

text \<open>\<^verbatim>\<open>data.elements.map(...).filter(Boolean)\<close> (lines 340-369).\<close>

definition overpassPlaces_cfg :: "externals \<Rightarrow> jsval \<Rightarrow> js_error + jsval list" where
  "overpassPlaces_cfg B data =
     (case readProp data ''elements'' of
        Inl e \<Rightarrow> Inl e
      | Inr (JArr els) \<Rightarrow>
          (case mapArray (normalizeElement_cfg B) els of
             Inl e \<Rightarrow> Inl e
           | Inr ps \<Rightarrow> Inr (filter truthy ps))
      | Inr v \<Rightarrow> Inl (TypeError ''map''))"

definition loadPizzaPlaces_cfg_try ::
  "externals \<Rightarrow> string \<Rightarrow> reply \<Rightarrow> app \<Rightarrow> js_error option \<times> app" where
  "loadPizzaPlaces_cfg_try B API_BASE r s =
     (case r of
        Rejected m \<Rightarrow> (Some (ErrorObj m), s)
      | Parsed data \<Rightarrow>
          if usesOverpass API_BASE
          then (case overpassPlaces_cfg B data of
                  Inl e \<Rightarrow> (Some e, s)
                | Inr places \<Rightarrow> showPlaces B (JArr places) s)
          else (case readProp data ''success'' of
                  Inl e \<Rightarrow> (Some e, s)
                | Inr success \<Rightarrow>
                    if \<not> truthy success
                    then (None, updateStatus (''Error: '' @ to_string B (getProp data ''error''))
                                  ''error'' s)
                    else showPlaces B (getProp data ''places'') s))"

definition loadPizzaPlaces_cfg_settled :: "externals \<Rightarrow> string \<Rightarrow> reply \<Rightarrow> app \<Rightarrow> app" where
  "loadPizzaPlaces_cfg_settled B API_BASE r s =
     (case loadPizzaPlaces_cfg_try B API_BASE r s of
        (None, s1) \<Rightarrow> showLoading False s1
      | (Some e, s1) \<Rightarrow>
          showLoading False (updateStatus (''Error: '' @ message B e) ''error'' s1))"

definition updateLocation_cfg ::
  "externals \<Rightarrow> string \<Rightarrow> jsval \<Rightarrow> jsval \<Rightarrow> app \<Rightarrow> js_error option \<times> app" where
  "updateLocation_cfg B API_BASE lat lng s =
     (let s = s\<lparr>currentLat := lat, currentLng := lng\<rparr> in
      case setView B lat lng of
        Some e \<Rightarrow> (Some e, s)
      | None \<Rightarrow> (None, loadPizzaPlaces_cfg API_BASE s))"

definition searchCity_cfg :: "string \<Rightarrow> app \<Rightarrow> app" where
  "searchCity_cfg API_BASE s =
     (let cityName = trim (cityInput s) in
      if cityName = [] then updateStatus ''Please enter a city name'' ''error'' s
      else (let s = updateStatus ''Searching for city...'' [] s in
            if usesOverpass API_BASE then fetch (NominatimGET cityName) s
            else fetch (SearchCityGET cityName) s))"

definition searchCity_cfg_try ::
  "externals \<Rightarrow> string \<Rightarrow> reply \<Rightarrow> app \<Rightarrow> js_error option \<times> app" where
  "searchCity_cfg_try B API_BASE r s =
     (case r of
        Rejected m \<Rightarrow> (Some (ErrorObj m), s)
      | Parsed data \<Rightarrow>
          if usesOverpass API_BASE
          then (case readProp data ''length'' of
                  Inl e \<Rightarrow> (Some e, s)
                | Inr len \<Rightarrow>
                    if \<not> truthy len then (Some (ErrorObj ''City not found''), s)
                    else (case readProp (index0 data) ''lat'' of
                            Inl e \<Rightarrow> (Some e, s)
                          | Inr la \<Rightarrow>
                              (case updateLocation_cfg B API_BASE (parseFloat B la)
                                      (parseFloat B (getProp (index0 data) ''lon'')) s of
                                 (Some e, s1) \<Rightarrow> (Some e, s1)
                               | (None, s1) \<Rightarrow>
                                   (None, updateStatus (''Found ''
                                      @ to_string B (getProp (index0 data) ''display_name''))
                                      ''success'' s1))))
          else (case readProp data ''success'' of
                  Inl e \<Rightarrow> (Some e, s)
                | Inr success \<Rightarrow>
                    if \<not> truthy success then (Some (new_Error B (getProp data ''error'')), s)
                    else (case updateLocation_cfg B API_BASE (getProp data ''lat'')
                                  (getProp data ''lng'') s of
                            (Some e, s1) \<Rightarrow> (Some e, s1)
                          | (None, s1) \<Rightarrow>
                              (None, updateStatus (''Found '' @ to_string B (getProp data ''city''))
                                       ''success'' s1))))"

definition searchCity_cfg_settled :: "externals \<Rightarrow> string \<Rightarrow> reply \<Rightarrow> app \<Rightarrow> app" where
  "searchCity_cfg_settled B API_BASE r s =
     (case searchCity_cfg_try B API_BASE r s of
        (None, s1) \<Rightarrow> s1
      | (Some e, s1) \<Rightarrow> updateStatus (''City search error: '' @ message B e) ''error'' s1)"

subsection \<open>The script that calls Overpass and Nominatim only (lines 499-772)\<close>

definition loadPizzaPlaces_osm :: "app \<Rightarrow> app" where
  "loadPizzaPlaces_osm s =
     (let s = showLoading True s;
          s = updateStatus ''Loading pizza places...'' [] s
      in fetch (OverpassPOST (currentLat s) (currentLng s)) s)"

text \<open>The callback of \<^verbatim>\<open>map\<close> (lines 595-606).\<close>

definition normalizeElement_osm :: "externals \<Rightarrow> jsval \<Rightarrow> js_error + jsval" where
  "normalizeElement_osm B element =
     (if nullish element then Inl (TypeError ''lat'')
      else (let tags = getProp element ''tags'' in
            Inr (JObj [(''lat'', getProp element ''lat''),
                       (''lng'', getProp element ''lon''),
                       (''name'', js_or (optProp tags ''name'') (JStr ''Pizza Place'')),
                       (''amenity'', js_or (optProp tags ''amenity'') (JStr ''restaurant'')),
                       (''address'', JStr (buildAddress B (js_or tags (JObj [])))),
                       (''phone'', js_or (optProp tags ''phone'') (JStr [])),
                       (''website'', js_or (optProp tags ''website'') (JStr [])),
                       (''opening_hours'', js_or (optProp tags ''opening_hours'') (JStr [])),
                       (''takeaway'', js_or (optProp tags ''takeaway'') (JStr [])),
                       (''delivery'', js_or (optProp tags ''delivery'') (JStr []))])))"

definition overpassPlaces_osm :: "externals \<Rightarrow> jsval \<Rightarrow> js_error + jsval list" where
  "overpassPlaces_osm B data =
     (case readProp data ''elements'' of
        Inl e \<Rightarrow> Inl e
      | Inr (JArr els) \<Rightarrow> mapArray (normalizeElement_osm B) els
      | Inr v \<Rightarrow> Inl (TypeError ''map''))"

definition loadPizzaPlaces_osm_try :: "externals \<Rightarrow> reply \<Rightarrow> app \<Rightarrow> js_error option \<times> app" where
  "loadPizzaPlaces_osm_try B r s =
     (case r of
        Rejected m \<Rightarrow> (Some (ErrorObj m), s)
      | Parsed data \<Rightarrow>
          (case overpassPlaces_osm B data of
             Inl e \<Rightarrow> (Some e, s)
           | Inr places \<Rightarrow> showPlaces B (JArr places) s))"

definition loadPizzaPlaces_osm_settled :: "externals \<Rightarrow> reply \<Rightarrow> app \<Rightarrow> app" where
  "loadPizzaPlaces_osm_settled B r s =
     (case loadPizzaPlaces_osm_try B r s of
        (None, s1) \<Rightarrow> showLoading False s1
      | (Some e, s1) \<Rightarrow>
          showLoading False (updateStatus (''Error: '' @ message B e) ''error'' s1))"

definition updateLocation_osm :: "externals \<Rightarrow> jsval \<Rightarrow> jsval \<Rightarrow> app \<Rightarrow> js_error option \<times> app" where
  "updateLocation_osm B lat lng s =
     (let s = s\<lparr>currentLat := lat, currentLng := lng\<rparr> in
      case setView B lat lng of
        Some e \<Rightarrow> (Some e, s)
      | None \<Rightarrow> (None, loadPizzaPlaces_osm s))"

definition searchCity_osm :: "app \<Rightarrow> app" where
  "searchCity_osm s =
     (let cityName = trim (cityInput s) in
      if cityName = [] then updateStatus ''Please enter a city name'' ''error'' s
      else fetch (NominatimGET cityName) (updateStatus ''Searching for city...'' [] s))"

definition searchCity_osm_try :: "externals \<Rightarrow> reply \<Rightarrow> app \<Rightarrow> js_error option \<times> app" where
  "searchCity_osm_try B r s =
     (case r of
        Rejected m \<Rightarrow> (Some (ErrorObj m), s)
      | Parsed data \<Rightarrow>
          (case readProp data ''length'' of
             Inl e \<Rightarrow> (Some e, s)
           | Inr len \<Rightarrow>
               if gt_zero B len
               then (let result = index0 data in
                     case readProp result ''lat'' of
                       Inl e \<Rightarrow> (Some e, s)
                     | Inr la \<Rightarrow>
                         (case updateLocation_osm B (parseFloat B la)
                                 (parseFloat B (getProp result ''lon'')) s of
                            (Some e, s1) \<Rightarrow> (Some e, s1)
                          | (None, s1) \<Rightarrow>
                              (None, updateStatus (''Found ''
                                 @ to_string B (getProp result ''display_name''))
                                 ''success'' s1)))
               else (None, updateStatus ''City not found'' ''error'' s)))"

definition searchCity_osm_settled :: "externals \<Rightarrow> reply \<Rightarrow> app \<Rightarrow> app" where
  "searchCity_osm_settled B r s =
     (case searchCity_osm_try B r s of
        (None, s1) \<Rightarrow> s1
      | (Some e, s1) \<Rightarrow> updateStatus (''City search error: '' @ message B e) ''error'' s1)"

definition geolocationFound_osm :: "externals \<Rightarrow> real \<Rightarrow> real \<Rightarrow> app \<Rightarrow> js_error option \<times> app" where
  "geolocationFound_osm B latitude longitude s =
     updateLocation_osm B (JNum latitude) (JNum longitude) s"

text \<open>\<^verbatim>\<open>searchCurrentArea\<close> (lines 752-772).\<close>

definition searchCurrentArea_osm :: "latLng \<Rightarrow> real \<Rightarrow> app \<Rightarrow> app" where
  "searchCurrentArea_osm center zoom s =
     (if zoom < 10
      then updateStatus ''Please zoom in more to search a smaller area'' ''error'' s
      else (let s = updateStatus ''Searching pizza places in current area...'' [] s;
                s = s\<lparr>currentLat := JNum (latOf center)\<rparr>;
                s = s\<lparr>currentLng := JNum (lngOf center)\<rparr>
            in loadPizzaPlaces_osm s))"

subsection \<open>A page and a browser for the examples\<close>

text \<open>
  The globals as lines 8-12 initialise them, nothing rendered, nothing fetched; and one
  browser: it accepts numbers as coordinates, reads the two numerals the examples use and
  prints every number as \<^verbatim>\<open>n\<close>.
\<close>

definition startPage :: app where
  "startPage =
     \<lparr>currentLat = JNum (5252 / 100), currentLng = JNum (13405 / 1000), markers = [],
      status = ([], []), loading = False, cityInput = [], requests = [], renderCalls = 0\<rparr>"

definition sampleBrowser :: externals where
  "sampleBrowser =
     \<lparr>numberToString = (\<lambda>r. ''n''),
      parseFloat = (\<lambda>v. case v of
                           JNum r \<Rightarrow> JNum r
                         | JStr t \<Rightarrow> (if t = ''48.85'' then JNum (4885 / 100)
                                      else if t = ''2.35'' then JNum (235 / 100) else JNaN)
                         | w \<Rightarrow> JNaN),
      toNumber = (\<lambda>v. case v of JNum r \<Rightarrow> JNum r | w \<Rightarrow> JNaN),
      validLatLng = (\<lambda>a b. case a of
                              JNum x \<Rightarrow> (case b of JNum y \<Rightarrow> True | w \<Rightarrow> False)
                            | w \<Rightarrow> False),
      engineMessage = (\<lambda>e. ''engine error''),
      hasGeolocation = True\<rparr>"

text \<open>
  The two values of \<^verbatim>\<open>API_BASE\<close> that the configurable script names (lines 221 and 227),
  a success envelope of the city search of the Python API, a match of Nominatim (which
  sends coordinates as text), a map center, and two envelopes of the places endpoint.
\<close>

definition localApi :: string where
  "localApi = ''http://127.0.0.1:5000''"

definition overpassApi :: string where
  "overpassApi = ''https://overpass-api.de/api/interpreter''"

definition parisEnvelope :: jsval where
  "parisEnvelope =
     JObj [(''success'', JBool True), (''city'', JStr ''Paris''),
           (''lat'', JNum (4885 / 100)), (''lng'', JNum (235 / 100))]"

definition parisMatch :: jsval where
  "parisMatch =
     JObj [(''lat'', JStr ''48.85''), (''lon'', JStr ''2.35''),
           (''display_name'', JStr ''Paris, France'')]"

definition parisCenter :: latLng where
  "parisCenter = \<lparr>latOf = 4885 / 100, lngOf = 235 / 100\<rparr>"

definition placeA :: jsval where
  "placeA = JObj [(''lat'', JNum 1), (''lng'', JNum 2), (''name'', JStr ''A'')]"

definition placeB :: jsval where
  "placeB = JObj [(''lat'', JNum 3), (''lng'', JNum 4), (''name'', JStr ''B'')]"

definition envelopeA :: jsval where
  "envelopeA = JObj [(''success'', JBool True), (''places'', JArr [placeA])]"

definition envelopeB :: jsval where
  "envelopeB = JObj [(''success'', JBool True), (''places'', JArr [placeB])]"

definition nodeResponse :: jsval where
  "nodeResponse =
     JObj [(''elements'',
            JArr [JObj [(''type'', JStr ''node''), (''id'', JNum 1), (''lat'', JNum 1),
                        (''lon'', JNum 2), (''tags'', JObj [(''name'', JStr ''A'')])]])]"

section \<open>Notions used by the claims\<close>

text \<open>
  The tag \<^verbatim>\<open>k\<close> of \<^verbatim>\<open>tags\<close> holds the text \<^verbatim>\<open>t\<close>; an absent tag counts as the empty text.
\<close>

definition hasComponent :: "jsval \<Rightarrow> string \<Rightarrow> string \<Rightarrow> bool" where
  "hasComponent tags k t =
     (getProp tags k = JStr t \<or> (t = [] \<and> getProp tags k = JUndefined))"

text \<open>
  An element of the Overpass response has coordinates the configurable script can use:
  \<^verbatim>\<open>el.lat && el.lon\<close> holds, or \<^verbatim>\<open>el.center\<close> does.
\<close>

definition resolved_cfg :: "jsval \<Rightarrow> bool" where
  "resolved_cfg el =
     (truthy (getProp el ''lat'') \<and> truthy (getProp el ''lon'')
      \<or> truthy (getProp el ''center''))"

text \<open>
  Between the states \<^verbatim>\<open>s\<close> and \<^verbatim>\<open>s'\<close> the shared center became \<^verbatim>\<open>(lat, lng)\<close> and exactly
  one request was issued, \<^verbatim>\<open>r\<close>.
\<close>

definition recentred :: "app \<Rightarrow> jsval \<Rightarrow> jsval \<Rightarrow> request \<Rightarrow> app \<Rightarrow> bool" where
  "recentred s lat lng r s' =
     (currentLat s' = lat \<and> currentLng s' = lng \<and> requests s' = requests s @ [r])"

text \<open>The request for places that the configurable script issues for a center.\<close>

definition placesRequest_cfg :: "string \<Rightarrow> jsval \<Rightarrow> jsval \<Rightarrow> request" where
  "placesRequest_cfg API_BASE lat lng =
     (if usesOverpass API_BASE then OverpassPOST lat lng else PizzaPlacesGET lat lng)"

text \<open>
  A place that \<^verbatim>\<open>addPizzaMarkers\<close> can turn into a marker: it is not null or undefined and
  Leaflet accepts its coordinates.
\<close>

definition renderable :: "externals \<Rightarrow> jsval \<Rightarrow> bool" where
  "renderable B place =
     (\<not> nullish place \<and> validLatLng B (getProp place ''lat'') (getProp place ''lng''))"

section \<open>Claims\<close>

subsection \<open>buildAddress\<close>

lemma buildAddress_texts:
  assumes "hasComponent tags ''addr:housenumber'' h"
      and "hasComponent tags ''addr:street'' st"
      and "hasComponent tags ''addr:city'' c"
  shows "buildAddress B tags =
     (if h = [] then (if st = [] then c else if c = [] then st else st @ '', '' @ c)
      else if st = [] then (if c = [] then h else h @ '', '' @ c)
      else if c = [] then h @ '', '' @ st
      else h @ '', '' @ st @ '', '' @ c)"
proof -
  have H: "truthy (getProp tags ''addr:housenumber'') = (h \<noteq> [])"
    "h \<noteq> [] \<Longrightarrow> getProp tags ''addr:housenumber'' = JStr h"
    using assms(1) by (auto simp: hasComponent_def)
  have S: "truthy (getProp tags ''addr:street'') = (st \<noteq> [])"
    "st \<noteq> [] \<Longrightarrow> getProp tags ''addr:street'' = JStr st"
    using assms(2) by (auto simp: hasComponent_def)
  have C: "truthy (getProp tags ''addr:city'') = (c \<noteq> [])"
    "c \<noteq> [] \<Longrightarrow> getProp tags ''addr:city'' = JStr c"
    using assms(3) by (auto simp: hasComponent_def)
  show ?thesis
    unfolding buildAddress_def join_values_def Let_def
    by (simp add: H S C)
qed

text \<open>
  Claim C2. \<^verbatim>\<open>buildAddress\<close> joins the housenumber, street and city tags, in that order,
  with a comma and a space. For housenumber 10, street Main St and city Springfield it
  returns \<^verbatim>\<open>10, Main St, Springfield\<close>; for the city alone, \<^verbatim>\<open>Springfield\<close>; for no
  component, the empty string. In general, for tags that are texts or absent, each
  separator stands between two components that are not empty: the result is one of the
  eight shapes below, chosen by which components are empty.
\<close>

theorem buildAddress_joins_components:
  "buildAddress B (JObj [(''addr:housenumber'', JStr ''10''), (''addr:street'', JStr ''Main St''),
                         (''addr:city'', JStr ''Springfield'')]) = ''10, Main St, Springfield''
   \<and> buildAddress B (JObj [(''addr:city'', JStr ''Springfield'')]) = ''Springfield''
   \<and> buildAddress B (JObj []) = []
   \<and> (\<forall>tags h st c.
         hasComponent tags ''addr:housenumber'' h \<and> hasComponent tags ''addr:street'' st
         \<and> hasComponent tags ''addr:city'' c \<longrightarrow>
         buildAddress B tags =
           (if h = [] then (if st = [] then c else if c = [] then st else st @ '', '' @ c)
            else if st = [] then (if c = [] then h else h @ '', '' @ c)
            else if c = [] then h @ '', '' @ st
            else h @ '', '' @ st @ '', '' @ c))"
proof (intro conjI allI impI)
  show "buildAddress B (JObj [(''addr:housenumber'', JStr ''10''), (''addr:street'', JStr ''Main St''),
                         (''addr:city'', JStr ''Springfield'')]) = ''10, Main St, Springfield''"
    by (simp add: buildAddress_def join_values_def)
  show "buildAddress B (JObj [(''addr:city'', JStr ''Springfield'')]) = ''Springfield''"
    by (simp add: buildAddress_def join_values_def)
  show "buildAddress B (JObj []) = []"
    by (simp add: buildAddress_def join_values_def)
next
  fix tags h st c
  assume "hasComponent tags ''addr:housenumber'' h \<and> hasComponent tags ''addr:street'' st
         \<and> hasComponent tags ''addr:city'' c"
  then show "buildAddress B tags =
           (if h = [] then (if st = [] then c else if c = [] then st else st @ '', '' @ c)
            else if st = [] then (if c = [] then h else h @ '', '' @ c)
            else if c = [] then h @ '', '' @ st
            else h @ '', '' @ st @ '', '' @ c)"
    using buildAddress_texts by blast
qed

theorem buildAddress_joins_components_witness:
  "hasComponent (JObj [(''addr:housenumber'', JStr ''10''), (''addr:city'', JStr ''Springfield'')])
     ''addr:housenumber'' ''10''
   \<and> hasComponent (JObj [(''addr:housenumber'', JStr ''10''), (''addr:city'', JStr ''Springfield'')])
     ''addr:street'' []
   \<and> hasComponent (JObj [(''addr:housenumber'', JStr ''10''), (''addr:city'', JStr ''Springfield'')])
     ''addr:city'' ''Springfield''
   \<and> buildAddress sampleBrowser
        (JObj [(''addr:housenumber'', JStr ''10''), (''addr:city'', JStr ''Springfield'')])
      = ''10, Springfield''"
proof -
  let ?tags = "JObj [(''addr:housenumber'', JStr ''10''), (''addr:city'', JStr ''Springfield'')]"
  have h: "hasComponent ?tags ''addr:housenumber'' ''10''"
    by (simp add: hasComponent_def)
  have s: "hasComponent ?tags ''addr:street'' []"
    by (simp add: hasComponent_def)
  have c: "hasComponent ?tags ''addr:city'' ''Springfield''"
    by (simp add: hasComponent_def)
  from buildAddress_joins_components [of sampleBrowser]
  have "hasComponent ?tags ''addr:housenumber'' ''10'' \<and> hasComponent ?tags ''addr:street'' []
         \<and> hasComponent ?tags ''addr:city'' ''Springfield'' \<longrightarrow>
        buildAddress sampleBrowser ?tags = ''10, Springfield''"
    by (elim conjE allE [of _ ?tags] allE [of _ "''10''"] allE [of _ "[]"]
          allE [of _ "''Springfield''"]) simp
  with h s c show ?thesis by blast
qed

subsection \<open>Normalising the Overpass response\<close>

lemma getProp_nullish: "nullish v \<Longrightarrow> getProp v k = JUndefined"
  by (cases v) simp_all

lemma normalizeElement_cfg_resolved:
  "\<not> nullish el \<Longrightarrow> resolved_cfg el \<Longrightarrow>
     \<exists>p. normalizeElement_cfg B el = Inr p \<and> truthy p"
  by (auto simp: normalizeElement_cfg_def resolved_cfg_def place_cfg_def Let_def)

lemma normalizeElement_cfg_unresolved:
  "\<not> nullish el \<Longrightarrow> \<not> resolved_cfg el \<Longrightarrow> normalizeElement_cfg B el = Inr JNull"
  by (auto simp: normalizeElement_cfg_def resolved_cfg_def)

lemma mapArray_normalize_cfg:
  "\<forall>el\<in>set els. \<not> nullish el \<Longrightarrow>
     \<exists>raw. mapArray (normalizeElement_cfg B) els = Inr raw
       \<and> list_all2 (\<lambda>el p. normalizeElement_cfg B el = Inr p)
            (filter resolved_cfg els) (filter truthy raw)"
proof (induction els)
  case Nil
  then show ?case by simp
next
  case (Cons el els)
  then obtain raw where raw: "mapArray (normalizeElement_cfg B) els = Inr raw"
      "list_all2 (\<lambda>el p. normalizeElement_cfg B el = Inr p)
            (filter resolved_cfg els) (filter truthy raw)"
    by auto
  have nn: "\<not> nullish el" using Cons.prems by simp
  show ?case
  proof (cases "resolved_cfg el")
    case True
    with nn obtain p where "normalizeElement_cfg B el = Inr p" "truthy p"
      using normalizeElement_cfg_resolved by blast
    with raw True show ?thesis by simp
  next
    case False
    with nn have "normalizeElement_cfg B el = Inr JNull"
      by (rule normalizeElement_cfg_unresolved)
    with raw False show ?thesis by simp
  qed
qed

lemma length_filter_not:
  "length (filter P xs) = length xs - length (filter (\<lambda>x. \<not> P x) xs)"
  using sum_length_filter_compl [of P xs] by simp

lemma overpassPlaces_cfg_resolved:
  assumes "getProp data ''elements'' = JArr els" and "\<forall>el\<in>set els. \<not> nullish el"
  shows "\<exists>ps. overpassPlaces_cfg B data = Inr ps
           \<and> list_all2 (\<lambda>el p. normalizeElement_cfg B el = Inr p) (filter resolved_cfg els) ps
           \<and> length ps = length els - length (filter (\<lambda>el. \<not> resolved_cfg el) els)"
proof -
  have nd: "\<not> nullish data" using assms(1) getProp_nullish by fastforce
  obtain raw where raw: "mapArray (normalizeElement_cfg B) els = Inr raw"
      "list_all2 (\<lambda>el p. normalizeElement_cfg B el = Inr p)
            (filter resolved_cfg els) (filter truthy raw)"
    using mapArray_normalize_cfg [OF assms(2)] by blast
  have "overpassPlaces_cfg B data = Inr (filter truthy raw)"
    using nd assms(1) raw(1) by (simp add: overpassPlaces_cfg_def readProp_def)
  moreover have "length (filter truthy raw) = length (filter resolved_cfg els)"
    using raw(2) by (simp add: list_all2_lengthD)
  ultimately show ?thesis
    using raw(2) length_filter_not [of resolved_cfg els] by simp
qed

lemma mapArray_normalize_osm:
  "\<forall>el\<in>set els. \<not> nullish el \<Longrightarrow>
     \<exists>qs. mapArray (normalizeElement_osm B) els = Inr qs
       \<and> list_all2 (\<lambda>el q. normalizeElement_osm B el = Inr q) els qs"
  by (induction els) (auto simp: normalizeElement_osm_def Let_def)

lemma overpassPlaces_osm_all:
  assumes "getProp data ''elements'' = JArr els" and "\<forall>el\<in>set els. \<not> nullish el"
  shows "\<exists>qs. overpassPlaces_osm B data = Inr qs
           \<and> list_all2 (\<lambda>el q. normalizeElement_osm B el = Inr q) els qs
           \<and> length qs = length els"
proof -
  have nd: "\<not> nullish data" using assms(1) getProp_nullish by fastforce
  obtain qs where qs: "mapArray (normalizeElement_osm B) els = Inr qs"
      "list_all2 (\<lambda>el q. normalizeElement_osm B el = Inr q) els qs"
    using mapArray_normalize_osm [OF assms(2)] by blast
  have "overpassPlaces_osm B data = Inr qs"
    using nd assms(1) qs(1) by (simp add: overpassPlaces_osm_def readProp_def)
  moreover have "length qs = length els"
    using qs(2) by (simp add: list_all2_lengthD)
  ultimately show ?thesis using qs(2) by simp
qed

text \<open>
  Claim C1, as the code has it. The claim says that every element of the Overpass
  response without direct coordinates and without a center is left out of the list of
  places. The Overpass-only script (lines 594-606) leaves nothing out: an element with a
  name and no coordinates gives a place whose \<^verbatim>\<open>lat\<close> and \<^verbatim>\<open>lng\<close> are undefined.
\<close>

theorem overpass_only_script_keeps_unresolved_element:
  "overpassPlaces_osm sampleBrowser
     (JObj [(''elements'',
             JArr [JObj [(''type'', JStr ''way''), (''id'', JNum 7),
                         (''tags'', JObj [(''name'', JStr ''Da Mario'')])]])])
   = Inr [JObj [(''lat'', JUndefined), (''lng'', JUndefined), (''name'', JStr ''Da Mario''),
                (''amenity'', JStr ''restaurant''), (''address'', JStr []),
                (''phone'', JStr []), (''website'', JStr []), (''opening_hours'', JStr []),
                (''takeaway'', JStr []), (''delivery'', JStr [])]]"
  by (simp add: overpassPlaces_osm_def readProp_def normalizeElement_osm_def Let_def
      js_or_def optProp_def buildAddress_def join_values_def)

text \<open>
  Claim C1, amended. For a response whose \<^verbatim>\<open>elements\<close> are objects: in the configurable
  script (lines 340-369) the places are, in order, those of the elements for which
  \<^verbatim>\<open>el.lat && el.lon\<close> or \<^verbatim>\<open>el.center\<close> is truthy, so the length of the output is the
  length of the input minus the number of the other elements; in the Overpass-only script
  every element gives a place and the two lengths are equal.
\<close>

theorem overpass_normalization_lengths:
  assumes "getProp data ''elements'' = JArr els" and "\<forall>el\<in>set els. \<not> nullish el"
  shows "(\<exists>ps. overpassPlaces_cfg B data = Inr ps
            \<and> list_all2 (\<lambda>el p. normalizeElement_cfg B el = Inr p) (filter resolved_cfg els) ps
            \<and> length ps = length els - length (filter (\<lambda>el. \<not> resolved_cfg el) els))
         \<and> (\<exists>qs. overpassPlaces_osm B data = Inr qs
               \<and> list_all2 (\<lambda>el q. normalizeElement_osm B el = Inr q) els qs
               \<and> length qs = length els)"
  using overpassPlaces_cfg_resolved [OF assms] overpassPlaces_osm_all [OF assms] by blast

theorem overpass_normalization_lengths_witness:
  "getProp (JObj [(''elements'',
       JArr [JObj [(''lat'', JNum 1), (''lon'', JNum 2)],
             JObj [(''center'', JObj [(''lat'', JNum 3), (''lon'', JNum 4)])],
             JObj [(''tags'', JObj [])]])]) ''elements''
     = JArr [JObj [(''lat'', JNum 1), (''lon'', JNum 2)],
             JObj [(''center'', JObj [(''lat'', JNum 3), (''lon'', JNum 4)])],
             JObj [(''tags'', JObj [])]]
   \<and> \<not> nullish (JObj [(''lat'', JNum 1), (''lon'', JNum 2)])
   \<and> \<not> nullish (JObj [(''center'', JObj [(''lat'', JNum 3), (''lon'', JNum 4)])])
   \<and> \<not> nullish (JObj [(''tags'', JObj [])])
   \<and> (\<exists>ps. overpassPlaces_cfg sampleBrowser (JObj [(''elements'',
              JArr [JObj [(''lat'', JNum 1), (''lon'', JNum 2)],
                    JObj [(''center'', JObj [(''lat'', JNum 3), (''lon'', JNum 4)])],
                    JObj [(''tags'', JObj [])]])]) = Inr ps
          \<and> length ps = 2)
   \<and> (\<exists>qs. overpassPlaces_osm sampleBrowser (JObj [(''elements'',
              JArr [JObj [(''lat'', JNum 1), (''lon'', JNum 2)],
                    JObj [(''center'', JObj [(''lat'', JNum 3), (''lon'', JNum 4)])],
                    JObj [(''tags'', JObj [])]])]) = Inr qs
          \<and> length qs = 3)"
proof -
  let ?els = "[JObj [(''lat'', JNum 1), (''lon'', JNum 2)],
               JObj [(''center'', JObj [(''lat'', JNum 3), (''lon'', JNum 4)])],
               JObj [(''tags'', JObj [])]]"
  let ?data = "JObj [(''elements'', JArr ?els)]"
  have e: "getProp ?data ''elements'' = JArr ?els" by simp
  have n: "\<forall>el\<in>set ?els. \<not> nullish el" by simp
  have l: "length ?els - length (filter (\<lambda>el. \<not> resolved_cfg el) ?els) = 2"
    by (simp add: resolved_cfg_def)
  from overpass_normalization_lengths [OF e n, of sampleBrowser] l
  have "(\<exists>ps. overpassPlaces_cfg sampleBrowser ?data = Inr ps \<and> length ps = 2)
        \<and> (\<exists>qs. overpassPlaces_osm sampleBrowser ?data = Inr qs \<and> length qs = 3)"
    by auto
  then show ?thesis by simp
qed

lemma place_cfg_coordinates:
  "getProp (place_cfg B el la lo) ''lat'' = la
   \<and> getProp (place_cfg B el la lo) ''lng'' = lo
   \<and> truthy (place_cfg B el la lo)"
  by (simp add: place_cfg_def Let_def)

text \<open>
  Claim C9. The configurable script tests the direct coordinates by truthiness
  (\<^verbatim>\<open>el.lat && el.lon\<close>, line 343). An element whose \<^verbatim>\<open>lat\<close> or \<^verbatim>\<open>lon\<close> is the number 0
  is treated as having no direct coordinates. When \<^verbatim>\<open>el.center\<close> is truthy the callback
  returns a place whose \<^verbatim>\<open>lat\<close> is \<^verbatim>\<open>el.center.lat\<close> and whose \<^verbatim>\<open>lng\<close> is
  \<^verbatim>\<open>el.center.lon\<close>, and that place is the one the list holds; otherwise the callback
  returns null and the element is dropped from the list.
\<close>

theorem zero_coordinate_is_treated_as_absent:
  assumes "getProp el ''lat'' = JNum 0 \<or> getProp el ''lon'' = JNum 0"
  shows "normalizeElement_cfg B el =
           (if truthy (getProp el ''center'')
            then Inr (place_cfg B el (getProp (getProp el ''center'') ''lat'')
                                     (getProp (getProp el ''center'') ''lon''))
            else Inr JNull)
         \<and> (truthy (getProp el ''center'') \<longrightarrow>
              (\<exists>p. normalizeElement_cfg B el = Inr p
                 \<and> getProp p ''lat'' = getProp (getProp el ''center'') ''lat''
                 \<and> getProp p ''lng'' = getProp (getProp el ''center'') ''lon''
                 \<and> (\<forall>data. getProp data ''elements'' = JArr [el]
                       \<longrightarrow> overpassPlaces_cfg B data = Inr [p])))
         \<and> (\<not> truthy (getProp el ''center'') \<longrightarrow> normalizeElement_cfg B el = Inr JNull)
         \<and> (\<forall>data. getProp data ''elements'' = JArr [el] \<and> \<not> truthy (getProp el ''center'')
               \<longrightarrow> overpassPlaces_cfg B data = Inr [])"
proof -
  let ?p = "place_cfg B el (getProp (getProp el ''center'') ''lat'')
              (getProp (getProp el ''center'') ''lon'')"
  have nn: "\<not> nullish el" using assms getProp_nullish by fastforce
  have "(truthy (getProp el ''lat'') \<and> truthy (getProp el ''lon'')) = False"
    using assms by auto
  then have 1: "normalizeElement_cfg B el =
           (if truthy (getProp el ''center'') then Inr ?p else Inr JNull)"
    using nn unfolding normalizeElement_cfg_def by (simp only: if_False)
  have 2: "overpassPlaces_cfg B data = Inr []"
    if "getProp data ''elements'' = JArr [el]" and "\<not> truthy (getProp el ''center'')" for data
  proof -
    have "\<not> nullish data" using that(1) getProp_nullish by fastforce
    then show ?thesis
      using that 1 by (simp add: overpassPlaces_cfg_def readProp_def)
  qed
  have 3: "overpassPlaces_cfg B data = Inr [?p]"
    if "getProp data ''elements'' = JArr [el]" and "truthy (getProp el ''center'')" for data
  proof -
    have "\<not> nullish data" using that(1) getProp_nullish by fastforce
    moreover have "truthy ?p" using place_cfg_coordinates by blast
    ultimately show ?thesis
      using that 1 by (simp add: overpassPlaces_cfg_def readProp_def)
  qed
  have 4: "\<exists>p. normalizeElement_cfg B el = Inr p
                 \<and> getProp p ''lat'' = getProp (getProp el ''center'') ''lat''
                 \<and> getProp p ''lng'' = getProp (getProp el ''center'') ''lon''
                 \<and> (\<forall>data. getProp data ''elements'' = JArr [el]
                       \<longrightarrow> overpassPlaces_cfg B data = Inr [p])"
    if c: "truthy (getProp el ''center'')"
  proof (intro exI conjI allI impI)
    show "normalizeElement_cfg B el = Inr ?p" using 1 c by simp
    show "getProp ?p ''lat'' = getProp (getProp el ''center'') ''lat''"
      using place_cfg_coordinates by blast
    show "getProp ?p ''lng'' = getProp (getProp el ''center'') ''lon''"
      using place_cfg_coordinates by blast
    show "overpassPlaces_cfg B data = Inr [?p]"
      if "getProp data ''elements'' = JArr [el]" for data
      using 3 [OF that c] .
  qed
  have 5: "normalizeElement_cfg B el = Inr JNull" if "\<not> truthy (getProp el ''center'')"
    using 1 that by simp
  from 1 2 4 5 show ?thesis by blast
qed

theorem zero_coordinate_is_treated_as_absent_witness:
  "getProp (JObj [(''lat'', JNum 0), (''lon'', JNum (1340 / 100)),
                  (''center'', JObj [(''lat'', JNum 1), (''lon'', JNum 2)])]) ''lat'' = JNum 0
   \<and> truthy (getProp (JObj [(''lat'', JNum 0), (''lon'', JNum (1340 / 100)),
                  (''center'', JObj [(''lat'', JNum 1), (''lon'', JNum 2)])]) ''center'')
   \<and> (\<exists>p. normalizeElement_cfg sampleBrowser
               (JObj [(''lat'', JNum 0), (''lon'', JNum (1340 / 100)),
                      (''center'', JObj [(''lat'', JNum 1), (''lon'', JNum 2)])]) = Inr p
          \<and> getProp p ''lat'' = JNum 1
          \<and> getProp p ''lng'' = JNum 2
          \<and> overpassPlaces_cfg sampleBrowser
               (JObj [(''elements'',
                  JArr [JObj [(''lat'', JNum 0), (''lon'', JNum (1340 / 100)),
                              (''center'', JObj [(''lat'', JNum 1), (''lon'', JNum 2)])]])])
              = Inr [p])
   \<and> getProp (JObj [(''lat'', JNum 0), (''lon'', JNum (1340 / 100))]) ''lat'' = JNum 0
   \<and> \<not> truthy (getProp (JObj [(''lat'', JNum 0), (''lon'', JNum (1340 / 100))]) ''center'')
   \<and> normalizeElement_cfg sampleBrowser (JObj [(''lat'', JNum 0), (''lon'', JNum (1340 / 100))])
       = Inr JNull
   \<and> overpassPlaces_cfg sampleBrowser
        (JObj [(''elements'', JArr [JObj [(''lat'', JNum 0), (''lon'', JNum (1340 / 100))]])])
       = Inr []"
proof -
  let ?way = "JObj [(''lat'', JNum 0), (''lon'', JNum (1340 / 100)),
                    (''center'', JObj [(''lat'', JNum 1), (''lon'', JNum 2)])]"
  let ?ways = "JObj [(''elements'', JArr [?way])]"
  let ?el = "JObj [(''lat'', JNum 0), (''lon'', JNum (1340 / 100))]"
  let ?data = "JObj [(''elements'', JArr [?el])]"
  have zw: "getProp ?way ''lat'' = JNum 0 \<or> getProp ?way ''lon'' = JNum 0" by simp
  have cw: "truthy (getProp ?way ''center'')" by simp
  have ew: "getProp ?ways ''elements'' = JArr [?way]" by simp
  have lw: "getProp (getProp ?way ''center'') ''lat'' = JNum 1"
      "getProp (getProp ?way ''center'') ''lon'' = JNum 2"
    by simp_all
  from zero_coordinate_is_treated_as_absent [OF zw, of sampleBrowser] cw
  obtain p where p: "normalizeElement_cfg sampleBrowser ?way = Inr p"
      "getProp p ''lat'' = getProp (getProp ?way ''center'') ''lat''"
      "getProp p ''lng'' = getProp (getProp ?way ''center'') ''lon''"
      "\<forall>data. getProp data ''elements'' = JArr [?way]
          \<longrightarrow> overpassPlaces_cfg sampleBrowser data = Inr [p]"
    by blast
  from p(4) ew have "overpassPlaces_cfg sampleBrowser ?ways = Inr [p]" by blast
  with p(1,2,3) lw
  have w: "\<exists>p. normalizeElement_cfg sampleBrowser ?way = Inr p
          \<and> getProp p ''lat'' = JNum 1 \<and> getProp p ''lng'' = JNum 2
          \<and> overpassPlaces_cfg sampleBrowser ?ways = Inr [p]"
    by auto
  have z: "getProp ?el ''lat'' = JNum 0 \<or> getProp ?el ''lon'' = JNum 0" by simp
  have c: "\<not> truthy (getProp ?el ''center'')" by simp
  have e: "getProp ?data ''elements'' = JArr [?el]" by simp
  from zero_coordinate_is_treated_as_absent [OF z, of sampleBrowser]
  have n: "normalizeElement_cfg sampleBrowser ?el = Inr JNull"
    and d: "overpassPlaces_cfg sampleBrowser ?data = Inr []"
    using c e by auto
  have f: "getProp ?way ''lat'' = JNum 0" "getProp ?el ''lat'' = JNum 0" by simp_all
  from f cw w c n d show ?thesis by blast
qed

subsection \<open>Failed loads\<close>

text \<open>
  Claim C3. When the structured API answers with an envelope whose \<^verbatim>\<open>success\<close> is false
  and whose \<^verbatim>\<open>error\<close> is the text \<^verbatim>\<open>x\<close>, \<^verbatim>\<open>loadPizzaPlaces\<close> (lines 85-88, and lines
  376-379 when \<^verbatim>\<open>API_BASE\<close> is not the Overpass endpoint) shows the status
  \<^verbatim>\<open>Error: x\<close> with class \<^verbatim>\<open>error\<close>, hides the loading overlay and changes nothing else:
  \<^verbatim>\<open>addPizzaMarkers\<close> is not called and the markers stay as they were.
\<close>

theorem failed_envelope_is_reported_and_not_rendered:
  assumes "getProp data ''success'' = JBool False" and "getProp data ''error'' = JStr x"
  shows "loadPizzaPlaces_api_settled B (Parsed data) s
           = s\<lparr>status := (''Error: '' @ x, ''error''), loading := False\<rparr>
         \<and> (\<not> usesOverpass API_BASE \<longrightarrow>
              loadPizzaPlaces_cfg_settled B API_BASE (Parsed data) s
                = s\<lparr>status := (''Error: '' @ x, ''error''), loading := False\<rparr>)"
proof -
  have nd: "\<not> nullish data" using assms(1) getProp_nullish by fastforce
  show ?thesis
    using nd assms
    by (simp add: loadPizzaPlaces_api_settled_def loadPizzaPlaces_api_try_def
        loadPizzaPlaces_cfg_settled_def loadPizzaPlaces_cfg_try_def readProp_def
        updateStatus_def showLoading_def)
qed

theorem failed_envelope_is_reported_and_not_rendered_witness:
  "getProp (JObj [(''success'', JBool False), (''error'', JStr ''x'')]) ''success'' = JBool False
   \<and> getProp (JObj [(''success'', JBool False), (''error'', JStr ''x'')]) ''error'' = JStr ''x''
   \<and> \<not> usesOverpass ''http://127.0.0.1:5000''
   \<and> loadPizzaPlaces_api_settled sampleBrowser
        (Parsed (JObj [(''success'', JBool False), (''error'', JStr ''x'')]))
        (startPage\<lparr>markers := [JObj [(''name'', JStr ''Da Mario'')]], loading := True\<rparr>)
      = startPage\<lparr>markers := [JObj [(''name'', JStr ''Da Mario'')]],
                    status := (''Error: x'', ''error'')\<rparr>
   \<and> loadPizzaPlaces_cfg_settled sampleBrowser ''http://127.0.0.1:5000''
        (Parsed (JObj [(''success'', JBool False), (''error'', JStr ''x'')]))
        (startPage\<lparr>markers := [JObj [(''name'', JStr ''Da Mario'')]], loading := True\<rparr>)
      = startPage\<lparr>markers := [JObj [(''name'', JStr ''Da Mario'')]],
                    status := (''Error: x'', ''error'')\<rparr>"
proof -
  let ?data = "JObj [(''success'', JBool False), (''error'', JStr ''x'')]"
  have a: "getProp ?data ''success'' = JBool False" by simp
  have b: "getProp ?data ''error'' = JStr ''x''" by simp
  have c: "\<not> usesOverpass ''http://127.0.0.1:5000''" by (simp add: usesOverpass_def)
  show ?thesis
    using failed_envelope_is_reported_and_not_rendered [OF a b, of sampleBrowser
        "startPage\<lparr>markers := [JObj [(''name'', JStr ''Da Mario'')]], loading := True\<rparr>"
        "''http://127.0.0.1:5000''"] c
    by (simp add: startPage_def)
qed

text \<open>
  Claim C4. When \<^verbatim>\<open>fetch\<close> or \<^verbatim>\<open>response.json()\<close> rejects, every \<^verbatim>\<open>loadPizzaPlaces\<close>
  shows the status \<^verbatim>\<open>Error: \<close> followed by the message of the rejection, with class
  \<^verbatim>\<open>error\<close>, hides the loading overlay and changes nothing else; the statements that run
  before the request do not touch the markers either. So the markers rendered before
  stay, and \<^verbatim>\<open>addPizzaMarkers\<close>, the only place that clears them, is not called.
\<close>

theorem rejected_load_keeps_markers:
  "loadPizzaPlaces_api_settled B (Rejected m) s
     = s\<lparr>status := (''Error: '' @ m, ''error''), loading := False\<rparr>
   \<and> loadPizzaPlaces_cfg_settled B API_BASE (Rejected m) s
     = s\<lparr>status := (''Error: '' @ m, ''error''), loading := False\<rparr>
   \<and> loadPizzaPlaces_osm_settled B (Rejected m) s
     = s\<lparr>status := (''Error: '' @ m, ''error''), loading := False\<rparr>
   \<and> markers (loadPizzaPlaces_api s) = markers s
   \<and> renderCalls (loadPizzaPlaces_api s) = renderCalls s
   \<and> markers (loadPizzaPlaces_cfg API_BASE s) = markers s
   \<and> renderCalls (loadPizzaPlaces_cfg API_BASE s) = renderCalls s
   \<and> markers (loadPizzaPlaces_osm s) = markers s
   \<and> renderCalls (loadPizzaPlaces_osm s) = renderCalls s"
  by (simp add: loadPizzaPlaces_api_settled_def loadPizzaPlaces_api_try_def
        loadPizzaPlaces_cfg_settled_def loadPizzaPlaces_cfg_try_def
        loadPizzaPlaces_osm_settled_def loadPizzaPlaces_osm_try_def
        loadPizzaPlaces_api_def loadPizzaPlaces_cfg_def loadPizzaPlaces_osm_def fetch_def
        updateStatus_def showLoading_def Let_def)

theorem rejected_load_keeps_markers_witness:
  "markers (loadPizzaPlaces_osm_settled sampleBrowser (Rejected ''Failed to fetch'')
      (loadPizzaPlaces_osm (startPage\<lparr>markers := [JObj [(''name'', JStr ''Da Mario'')]]\<rparr>)))
     = [JObj [(''name'', JStr ''Da Mario'')]]
   \<and> status (loadPizzaPlaces_osm_settled sampleBrowser (Rejected ''Failed to fetch'')
      (loadPizzaPlaces_osm (startPage\<lparr>markers := [JObj [(''name'', JStr ''Da Mario'')]]\<rparr>)))
     = (''Error: Failed to fetch'', ''error'')
   \<and> renderCalls (loadPizzaPlaces_osm_settled sampleBrowser (Rejected ''Failed to fetch'')
      (loadPizzaPlaces_osm (startPage\<lparr>markers := [JObj [(''name'', JStr ''Da Mario'')]]\<rparr>)))
     = 0"
proof -
  let ?s = "startPage\<lparr>markers := [JObj [(''name'', JStr ''Da Mario'')]]\<rparr>"
  have m: "markers ?s = [JObj [(''name'', JStr ''Da Mario'')]]" by simp
  have r: "renderCalls ?s = 0" by (simp add: startPage_def)
  show ?thesis
    using rejected_load_keeps_markers [of sampleBrowser "''Failed to fetch''"
        "loadPizzaPlaces_osm ?s" "[]"]
      rejected_load_keeps_markers [of sampleBrowser "''Failed to fetch''" ?s "[]"] m r
    by simp
qed

subsection \<open>Searches that are refused\<close>

lemma trim_whitespace: "(\<forall>c\<in>set q. js_whitespace c) \<Longrightarrow> trim q = []"
proof -
  assume "\<forall>c\<in>set q. js_whitespace c"
  then have d: "dropWhile js_whitespace q = []" by (simp only: dropWhile_eq_Nil_conv)
  show ?thesis unfolding trim_def d by simp
qed

lemma trim_empty_iff: "trim q = [] \<longleftrightarrow> (\<forall>c\<in>set q. js_whitespace c)"
proof
  assume t: "trim q = []"
  let ?d = "dropWhile js_whitespace q"
  have all: "\<forall>c\<in>set ?d. js_whitespace c"
    using t by (simp add: trim_def)
  have "?d = []"
  proof (rule ccontr)
    assume ne: "?d \<noteq> []"
    then have "\<not> js_whitespace (hd ?d)" by (rule hd_dropWhile)
    moreover have "hd ?d \<in> set ?d" using ne by simp
    ultimately show False using all by blast
  qed
  then show "\<forall>c\<in>set q. js_whitespace c" by (simp only: dropWhile_eq_Nil_conv)
next
  assume "\<forall>c\<in>set q. js_whitespace c"
  then show "trim q = []" by (rule trim_whitespace)
qed

text \<open>
  Claim C5. When the city input is empty or holds only whitespace, every \<^verbatim>\<open>searchCity\<close>
  shows the status \<^verbatim>\<open>Please enter a city name\<close> with class \<^verbatim>\<open>error\<close> and changes
  nothing else: no request is issued.
\<close>

theorem blank_city_is_refused_without_request:
  assumes "\<forall>c\<in>set (cityInput s). js_whitespace c"
  shows "searchCity_api s = s\<lparr>status := (''Please enter a city name'', ''error'')\<rparr>
       \<and> searchCity_cfg API_BASE s = s\<lparr>status := (''Please enter a city name'', ''error'')\<rparr>
       \<and> searchCity_osm s = s\<lparr>status := (''Please enter a city name'', ''error'')\<rparr>"
  using trim_whitespace [OF assms]
  by (simp add: searchCity_api_def searchCity_cfg_def searchCity_osm_def updateStatus_def)

theorem blank_city_is_refused_without_request_witness:
  "js_whitespace CHR '' '' \<and> js_whitespace (CHR 0x09)
   \<and> requests (searchCity_api (startPage\<lparr>cityInput := [CHR '' '', CHR 0x09]\<rparr>)) = []
   \<and> requests (searchCity_cfg ''https://overpass-api.de/api/interpreter''
                 (startPage\<lparr>cityInput := [CHR '' '', CHR 0x09]\<rparr>)) = []
   \<and> requests (searchCity_osm (startPage\<lparr>cityInput := [CHR '' '', CHR 0x09]\<rparr>)) = []
   \<and> status (searchCity_osm (startPage\<lparr>cityInput := [CHR '' '', CHR 0x09]\<rparr>))
       = (''Please enter a city name'', ''error'')"
proof -
  let ?s = "startPage\<lparr>cityInput := [CHR '' '', CHR 0x09]\<rparr>"
  have w: "js_whitespace CHR '' ''" "js_whitespace (CHR 0x09)"
    by (simp_all add: js_whitespace_def)
  then have h: "\<forall>c\<in>set (cityInput ?s). js_whitespace c" by simp
  have r: "requests ?s = []" by (simp add: startPage_def)
  show ?thesis
    using blank_city_is_refused_without_request [OF h,
        of "''https://overpass-api.de/api/interpreter''"] w r
    by simp
qed

text \<open>
  Claim C10. When the zoom of the map is below 10, \<^verbatim>\<open>searchCurrentArea\<close> (lines 203-215
  and 752-772) shows the status \<^verbatim>\<open>Please zoom in more to search a smaller area\<close> with
  class \<^verbatim>\<open>error\<close> and changes nothing else: \<^verbatim>\<open>currentLat\<close> and \<^verbatim>\<open>currentLng\<close> keep their
  values and no request is issued.
\<close>

theorem low_zoom_search_changes_only_status:
  assumes "zoom < 10"
  shows "searchCurrentArea_api center zoom s
           = s\<lparr>status := (''Please zoom in more to search a smaller area'', ''error'')\<rparr>
       \<and> searchCurrentArea_osm center zoom s
           = s\<lparr>status := (''Please zoom in more to search a smaller area'', ''error'')\<rparr>"
  using assms by (simp add: searchCurrentArea_api_def searchCurrentArea_osm_def updateStatus_def)

theorem low_zoom_search_changes_only_status_witness:
  "(9::real) < 10
   \<and> currentLat (searchCurrentArea_osm \<lparr>latOf = 4885 / 100, lngOf = 235 / 100\<rparr> 9 startPage)
       = JNum (5252 / 100)
   \<and> currentLng (searchCurrentArea_osm \<lparr>latOf = 4885 / 100, lngOf = 235 / 100\<rparr> 9 startPage)
       = JNum (13405 / 1000)
   \<and> requests (searchCurrentArea_osm \<lparr>latOf = 4885 / 100, lngOf = 235 / 100\<rparr> 9 startPage) = []
   \<and> requests (searchCurrentArea_api \<lparr>latOf = 4885 / 100, lngOf = 235 / 100\<rparr> 9 startPage) = []"
proof -
  have z: "(9::real) < 10" by simp
  show ?thesis
    using low_zoom_search_changes_only_status [OF z,
        of "\<lparr>latOf = 4885 / 100, lngOf = 235 / 100\<rparr>" startPage] z
    by (simp add: startPage_def)
qed

subsection \<open>Moving the search center\<close>

lemma updateLocation_api_ok:
  "validLatLng B lat lng \<Longrightarrow>
     updateLocation_api B lat lng s
       = (None, s\<lparr>currentLat := lat, currentLng := lng, loading := True,
                  status := (''Loading pizza places from API...'', []),
                  requests := requests s @ [PizzaPlacesGET lat lng]\<rparr>)"
  by (simp add: updateLocation_api_def setView_def loadPizzaPlaces_api_def Let_def
      showLoading_def updateStatus_def fetch_def)

lemma updateLocation_cfg_ok:
  "validLatLng B lat lng \<Longrightarrow>
     updateLocation_cfg B API_BASE lat lng s
       = (None, s\<lparr>currentLat := lat, currentLng := lng, loading := True,
                  status := (''Loading pizza places...'', []),
                  requests := requests s @ [placesRequest_cfg API_BASE lat lng]\<rparr>)"
  by (simp add: updateLocation_cfg_def setView_def loadPizzaPlaces_cfg_def Let_def
      showLoading_def updateStatus_def fetch_def placesRequest_cfg_def)

lemma updateLocation_osm_ok:
  "validLatLng B lat lng \<Longrightarrow>
     updateLocation_osm B lat lng s
       = (None, s\<lparr>currentLat := lat, currentLng := lng, loading := True,
                  status := (''Loading pizza places...'', []),
                  requests := requests s @ [OverpassPOST lat lng]\<rparr>)"
  by (simp add: updateLocation_osm_def setView_def loadPizzaPlaces_osm_def Let_def
      showLoading_def updateStatus_def fetch_def)

lemma searchCurrentArea_recentres:
  "10 \<le> zoom \<Longrightarrow>
     recentred s (JNum (latOf center)) (JNum (lngOf center))
        (PizzaPlacesGET (JNum (latOf center)) (JNum (lngOf center)))
        (searchCurrentArea_api center zoom s)
   \<and> recentred s (JNum (latOf center)) (JNum (lngOf center))
        (OverpassPOST (JNum (latOf center)) (JNum (lngOf center)))
        (searchCurrentArea_osm center zoom s)"
  by (simp add: recentred_def searchCurrentArea_api_def searchCurrentArea_osm_def Let_def
      loadPizzaPlaces_api_def loadPizzaPlaces_osm_def showLoading_def updateStatus_def fetch_def)

lemma searchCity_api_recentres:
  assumes "truthy (getProp data ''success'')"
      and "validLatLng B (getProp data ''lat'') (getProp data ''lng'')"
  shows "recentred s (getProp data ''lat'') (getProp data ''lng'')
           (PizzaPlacesGET (getProp data ''lat'') (getProp data ''lng''))
           (searchCity_api_settled B (Parsed data) s)"
proof -
  have nd: "\<not> nullish data" using assms(1) getProp_nullish by fastforce
  show ?thesis
    using nd assms
    by (simp add: recentred_def searchCity_api_settled_def searchCity_api_try_def readProp_def
        updateLocation_api_ok updateStatus_def)
qed

lemma searchCity_cfg_api_recentres:
  assumes "\<not> usesOverpass API_BASE" and "truthy (getProp data ''success'')"
      and "validLatLng B (getProp data ''lat'') (getProp data ''lng'')"
  shows "recentred s (getProp data ''lat'') (getProp data ''lng'')
           (PizzaPlacesGET (getProp data ''lat'') (getProp data ''lng''))
           (searchCity_cfg_settled B API_BASE (Parsed data) s)"
proof -
  have nd: "\<not> nullish data" using assms(2) getProp_nullish by fastforce
  show ?thesis
    using nd assms
    by (simp add: recentred_def searchCity_cfg_settled_def searchCity_cfg_try_def readProp_def
        updateLocation_cfg_ok updateStatus_def placesRequest_cfg_def)
qed

lemma searchCity_cfg_osm_recentres:
  assumes "usesOverpass API_BASE" and "\<not> nullish result"
      and "validLatLng B (parseFloat B (getProp result ''lat''))
             (parseFloat B (getProp result ''lon''))"
  shows "recentred s (parseFloat B (getProp result ''lat''))
           (parseFloat B (getProp result ''lon''))
           (OverpassPOST (parseFloat B (getProp result ''lat''))
              (parseFloat B (getProp result ''lon'')))
           (searchCity_cfg_settled B API_BASE (Parsed (JArr (result # rest))) s)"
  using assms
  by (simp add: recentred_def searchCity_cfg_settled_def searchCity_cfg_try_def readProp_def
        updateLocation_cfg_ok updateStatus_def placesRequest_cfg_def)

lemma searchCity_osm_recentres:
  assumes "\<not> nullish result"
      and "validLatLng B (parseFloat B (getProp result ''lat''))
             (parseFloat B (getProp result ''lon''))"
  shows "recentred s (parseFloat B (getProp result ''lat''))
           (parseFloat B (getProp result ''lon''))
           (OverpassPOST (parseFloat B (getProp result ''lat''))
              (parseFloat B (getProp result ''lon'')))
           (searchCity_osm_settled B (Parsed (JArr (result # rest))) s)"
  using assms
  by (simp add: recentred_def searchCity_osm_settled_def searchCity_osm_try_def readProp_def
        updateLocation_osm_ok updateStatus_def gt_zero_def Let_def)

lemma forEachPlace_requests: "requests (snd (forEachPlace B ps s)) = requests s"
  by (induction ps arbitrary: s) simp_all

lemma addPizzaMarkers_requests: "requests (snd (addPizzaMarkers B places s)) = requests s"
  by (cases places) (simp_all add: addPizzaMarkers_def forEachPlace_requests)

lemma showPlaces_requests: "requests (snd (showPlaces B places s)) = requests s"
proof (cases "addPizzaMarkers B places s")
  case (Pair e s1)
  then have "requests s1 = requests s"
    using addPizzaMarkers_requests [of B places s] by simp
  with Pair show ?thesis
    by (cases e) (simp_all add: showPlaces_def updateStatus_def)
qed

lemma loadPizzaPlaces_api_try_requests:
  "requests (snd (loadPizzaPlaces_api_try B r s)) = requests s"
  by (cases r)
     (simp_all add: loadPizzaPlaces_api_try_def readProp_def showPlaces_requests updateStatus_def)

lemma loadPizzaPlaces_cfg_try_requests:
  "requests (snd (loadPizzaPlaces_cfg_try B API_BASE r s)) = requests s"
  by (cases r)
     (simp_all add: loadPizzaPlaces_cfg_try_def readProp_def showPlaces_requests updateStatus_def
        split: sum.split)

lemma loadPizzaPlaces_osm_try_requests:
  "requests (snd (loadPizzaPlaces_osm_try B r s)) = requests s"
  by (cases r)
     (simp_all add: loadPizzaPlaces_osm_try_def showPlaces_requests split: sum.split)

lemma settled_load_issues_no_request:
  "requests (loadPizzaPlaces_api_settled B r s) = requests s
   \<and> requests (loadPizzaPlaces_cfg_settled B API_BASE r s) = requests s
   \<and> requests (loadPizzaPlaces_osm_settled B r s) = requests s"
proof (intro conjI)
  show "requests (loadPizzaPlaces_api_settled B r s) = requests s"
  proof (cases "loadPizzaPlaces_api_try B r s")
    case (Pair e s1)
    then have "requests s1 = requests s"
      using loadPizzaPlaces_api_try_requests [of B r s] by simp
    with Pair show ?thesis
      by (cases e) (simp_all add: loadPizzaPlaces_api_settled_def showLoading_def updateStatus_def)
  qed
  show "requests (loadPizzaPlaces_cfg_settled B API_BASE r s) = requests s"
  proof (cases "loadPizzaPlaces_cfg_try B API_BASE r s")
    case (Pair e s1)
    then have "requests s1 = requests s"
      using loadPizzaPlaces_cfg_try_requests [of B API_BASE r s] by simp
    with Pair show ?thesis
      by (cases e) (simp_all add: loadPizzaPlaces_cfg_settled_def showLoading_def updateStatus_def)
  qed
  show "requests (loadPizzaPlaces_osm_settled B r s) = requests s"
  proof (cases "loadPizzaPlaces_osm_try B r s")
    case (Pair e s1)
    then have "requests s1 = requests s"
      using loadPizzaPlaces_osm_try_requests [of B r s] by simp
    with Pair show ?thesis
      by (cases e) (simp_all add: loadPizzaPlaces_osm_settled_def showLoading_def updateStatus_def)
  qed
qed

text \<open>
  Claim C6. Every successful location resolution replaces \<^verbatim>\<open>currentLat\<close> and
  \<^verbatim>\<open>currentLng\<close> by the resolved coordinates and issues exactly one request for places,
  centered there. This holds for \<^verbatim>\<open>updateLocation\<close> itself whenever Leaflet accepts the
  coordinates (otherwise \<^verbatim>\<open>map.setView\<close> throws before \<^verbatim>\<open>loadPizzaPlaces\<close> is called), for
  the geolocation callback, for a city search whose reply is a success envelope or a
  non-empty list of matches, and for \<^verbatim>\<open>searchCurrentArea\<close> at zoom 10 or more. The reply
  to the request for places issues no further request.
\<close>

theorem successful_resolution_recentres_and_loads_once:
  "(validLatLng B lat lng \<longrightarrow>
      fst (updateLocation_api B lat lng s) = None
      \<and> recentred s lat lng (PizzaPlacesGET lat lng) (snd (updateLocation_api B lat lng s))
      \<and> fst (updateLocation_cfg B API_BASE lat lng s) = None
      \<and> recentred s lat lng (placesRequest_cfg API_BASE lat lng)
          (snd (updateLocation_cfg B API_BASE lat lng s))
      \<and> fst (updateLocation_osm B lat lng s) = None
      \<and> recentred s lat lng (OverpassPOST lat lng) (snd (updateLocation_osm B lat lng s)))
   \<and> (validLatLng B (JNum latitude) (JNum longitude) \<longrightarrow>
        recentred s (JNum latitude) (JNum longitude)
          (PizzaPlacesGET (JNum latitude) (JNum longitude))
          (snd (geolocationFound_api B latitude longitude s))
        \<and> recentred s (JNum latitude) (JNum longitude)
            (OverpassPOST (JNum latitude) (JNum longitude))
            (snd (geolocationFound_osm B latitude longitude s)))
   \<and> (truthy (getProp data ''success'')
        \<and> validLatLng B (getProp data ''lat'') (getProp data ''lng'') \<longrightarrow>
        recentred s (getProp data ''lat'') (getProp data ''lng'')
          (PizzaPlacesGET (getProp data ''lat'') (getProp data ''lng''))
          (searchCity_api_settled B (Parsed data) s)
        \<and> (\<not> usesOverpass API_BASE \<longrightarrow>
             recentred s (getProp data ''lat'') (getProp data ''lng'')
               (PizzaPlacesGET (getProp data ''lat'') (getProp data ''lng''))
               (searchCity_cfg_settled B API_BASE (Parsed data) s)))
   \<and> (\<not> nullish result
        \<and> validLatLng B (parseFloat B (getProp result ''lat''))
             (parseFloat B (getProp result ''lon'')) \<longrightarrow>
        recentred s (parseFloat B (getProp result ''lat''))
          (parseFloat B (getProp result ''lon''))
          (OverpassPOST (parseFloat B (getProp result ''lat''))
             (parseFloat B (getProp result ''lon'')))
          (searchCity_osm_settled B (Parsed (JArr (result # rest))) s)
        \<and> (usesOverpass API_BASE \<longrightarrow>
             recentred s (parseFloat B (getProp result ''lat''))
               (parseFloat B (getProp result ''lon''))
               (OverpassPOST (parseFloat B (getProp result ''lat''))
                  (parseFloat B (getProp result ''lon'')))
               (searchCity_cfg_settled B API_BASE (Parsed (JArr (result # rest))) s)))
   \<and> (10 \<le> zoom \<longrightarrow>
        recentred s (JNum (latOf center)) (JNum (lngOf center))
          (PizzaPlacesGET (JNum (latOf center)) (JNum (lngOf center)))
          (searchCurrentArea_api center zoom s)
        \<and> recentred s (JNum (latOf center)) (JNum (lngOf center))
            (OverpassPOST (JNum (latOf center)) (JNum (lngOf center)))
            (searchCurrentArea_osm center zoom s))
   \<and> requests (loadPizzaPlaces_api_settled B r t) = requests t
   \<and> requests (loadPizzaPlaces_cfg_settled B API_BASE r t) = requests t
   \<and> requests (loadPizzaPlaces_osm_settled B r t) = requests t"
proof (intro conjI impI)
  assume v: "validLatLng B lat lng"
  show "fst (updateLocation_api B lat lng s) = None"
    by (simp add: updateLocation_api_ok [OF v])
  show "recentred s lat lng (PizzaPlacesGET lat lng) (snd (updateLocation_api B lat lng s))"
    by (simp add: updateLocation_api_ok [OF v] recentred_def)
  show "fst (updateLocation_cfg B API_BASE lat lng s) = None"
    by (simp add: updateLocation_cfg_ok [OF v])
  show "recentred s lat lng (placesRequest_cfg API_BASE lat lng)
          (snd (updateLocation_cfg B API_BASE lat lng s))"
    by (simp add: updateLocation_cfg_ok [OF v] recentred_def)
  show "fst (updateLocation_osm B lat lng s) = None"
    by (simp add: updateLocation_osm_ok [OF v])
  show "recentred s lat lng (OverpassPOST lat lng) (snd (updateLocation_osm B lat lng s))"
    by (simp add: updateLocation_osm_ok [OF v] recentred_def)
next
  assume v: "validLatLng B (JNum latitude) (JNum longitude)"
  show "recentred s (JNum latitude) (JNum longitude)
          (PizzaPlacesGET (JNum latitude) (JNum longitude))
          (snd (geolocationFound_api B latitude longitude s))"
    by (simp add: geolocationFound_api_def updateLocation_api_ok [OF v] recentred_def)
  show "recentred s (JNum latitude) (JNum longitude)
            (OverpassPOST (JNum latitude) (JNum longitude))
            (snd (geolocationFound_osm B latitude longitude s))"
    by (simp add: geolocationFound_osm_def updateLocation_osm_ok [OF v] recentred_def)
next
  assume a: "truthy (getProp data ''success'')
        \<and> validLatLng B (getProp data ''lat'') (getProp data ''lng'')"
  show "recentred s (getProp data ''lat'') (getProp data ''lng'')
          (PizzaPlacesGET (getProp data ''lat'') (getProp data ''lng''))
          (searchCity_api_settled B (Parsed data) s)"
    using a searchCity_api_recentres by blast
  assume "\<not> usesOverpass API_BASE"
  with a show "recentred s (getProp data ''lat'') (getProp data ''lng'')
               (PizzaPlacesGET (getProp data ''lat'') (getProp data ''lng''))
               (searchCity_cfg_settled B API_BASE (Parsed data) s)"
    using searchCity_cfg_api_recentres by blast
next
  assume a: "\<not> nullish result
        \<and> validLatLng B (parseFloat B (getProp result ''lat''))
             (parseFloat B (getProp result ''lon''))"
  show "recentred s (parseFloat B (getProp result ''lat''))
          (parseFloat B (getProp result ''lon''))
          (OverpassPOST (parseFloat B (getProp result ''lat''))
             (parseFloat B (getProp result ''lon'')))
          (searchCity_osm_settled B (Parsed (JArr (result # rest))) s)"
    using a searchCity_osm_recentres by blast
  assume "usesOverpass API_BASE"
  with a show "recentred s (parseFloat B (getProp result ''lat''))
               (parseFloat B (getProp result ''lon''))
               (OverpassPOST (parseFloat B (getProp result ''lat''))
                  (parseFloat B (getProp result ''lon'')))
               (searchCity_cfg_settled B API_BASE (Parsed (JArr (result # rest))) s)"
    using searchCity_cfg_osm_recentres by blast
next
  assume z: "10 \<le> zoom"
  show "recentred s (JNum (latOf center)) (JNum (lngOf center))
          (PizzaPlacesGET (JNum (latOf center)) (JNum (lngOf center)))
          (searchCurrentArea_api center zoom s)"
    using searchCurrentArea_recentres [OF z] by blast
  show "recentred s (JNum (latOf center)) (JNum (lngOf center))
            (OverpassPOST (JNum (latOf center)) (JNum (lngOf center)))
            (searchCurrentArea_osm center zoom s)"
    using searchCurrentArea_recentres [OF z] by blast
next
  show "requests (loadPizzaPlaces_api_settled B r t) = requests t"
    using settled_load_issues_no_request by blast
  show "requests (loadPizzaPlaces_cfg_settled B API_BASE r t) = requests t"
    using settled_load_issues_no_request by blast
  show "requests (loadPizzaPlaces_osm_settled B r t) = requests t"
    using settled_load_issues_no_request by blast
qed

theorem successful_resolution_recentres_and_loads_once_witness:
  "validLatLng sampleBrowser (JNum (4885 / 100)) (JNum (235 / 100))
   \<and> truthy (getProp parisEnvelope ''success'')
   \<and> getProp parisEnvelope ''lat'' = JNum (4885 / 100)
   \<and> getProp parisEnvelope ''lng'' = JNum (235 / 100)
   \<and> \<not> nullish parisMatch
   \<and> parseFloat sampleBrowser (getProp parisMatch ''lat'') = JNum (4885 / 100)
   \<and> parseFloat sampleBrowser (getProp parisMatch ''lon'') = JNum (235 / 100)
   \<and> (10 :: real) \<le> 12
   \<and> usesOverpass overpassApi
   \<and> \<not> usesOverpass localApi
   \<and> recentred startPage (JNum (4885 / 100)) (JNum (235 / 100))
        (OverpassPOST (JNum (4885 / 100)) (JNum (235 / 100)))
        (snd (updateLocation_osm sampleBrowser (JNum (4885 / 100)) (JNum (235 / 100)) startPage))
   \<and> recentred startPage (JNum (4885 / 100)) (JNum (235 / 100))
        (PizzaPlacesGET (JNum (4885 / 100)) (JNum (235 / 100)))
        (snd (geolocationFound_api sampleBrowser (4885 / 100) (235 / 100) startPage))
   \<and> recentred startPage (JNum (4885 / 100)) (JNum (235 / 100))
        (PizzaPlacesGET (JNum (4885 / 100)) (JNum (235 / 100)))
        (searchCity_api_settled sampleBrowser (Parsed parisEnvelope) startPage)
   \<and> recentred startPage (JNum (4885 / 100)) (JNum (235 / 100))
        (PizzaPlacesGET (JNum (4885 / 100)) (JNum (235 / 100)))
        (searchCity_cfg_settled sampleBrowser localApi (Parsed parisEnvelope) startPage)
   \<and> recentred startPage (JNum (4885 / 100)) (JNum (235 / 100))
        (OverpassPOST (JNum (4885 / 100)) (JNum (235 / 100)))
        (searchCity_osm_settled sampleBrowser (Parsed (JArr [parisMatch])) startPage)
   \<and> recentred startPage (JNum (4885 / 100)) (JNum (235 / 100))
        (OverpassPOST (JNum (4885 / 100)) (JNum (235 / 100)))
        (searchCity_cfg_settled sampleBrowser overpassApi (Parsed (JArr [parisMatch])) startPage)
   \<and> recentred startPage (JNum (4885 / 100)) (JNum (235 / 100))
        (OverpassPOST (JNum (4885 / 100)) (JNum (235 / 100)))
        (searchCurrentArea_osm parisCenter 12 startPage)
   \<and> requests (searchCity_osm_settled sampleBrowser (Parsed (JArr [parisMatch])) startPage)
        = [OverpassPOST (JNum (4885 / 100)) (JNum (235 / 100))]"
proof -
  let ?la = "JNum (4885 / 100)" and ?lo = "JNum (235 / 100)"
  have v: "validLatLng sampleBrowser ?la ?lo" by (simp add: sampleBrowser_def)
  have e: "truthy (getProp parisEnvelope ''success'')"
      "getProp parisEnvelope ''lat'' = ?la" "getProp parisEnvelope ''lng'' = ?lo"
    by (simp_all add: parisEnvelope_def)
  have m: "\<not> nullish parisMatch"
      "parseFloat sampleBrowser (getProp parisMatch ''lat'') = ?la"
      "parseFloat sampleBrowser (getProp parisMatch ''lon'') = ?lo"
    by (simp_all add: parisMatch_def sampleBrowser_def)
  have z: "(10 :: real) \<le> 12" by simp
  have u: "usesOverpass overpassApi" "\<not> usesOverpass localApi"
    by (simp_all add: usesOverpass_def overpassApi_def localApi_def)
  have c: "latOf parisCenter = 4885 / 100" "lngOf parisCenter = 235 / 100"
    by (simp_all add: parisCenter_def)
  note T = successful_resolution_recentres_and_loads_once
    [where B = sampleBrowser and lat = ?la and lng = ?lo and s = startPage
       and latitude = "4885 / 100" and longitude = "235 / 100" and data = parisEnvelope
       and result = parisMatch and rest = "[]" and zoom = 12 and center = parisCenter
       and r = "Rejected []" and t = startPage]
  have r: "recentred startPage ?la ?lo (OverpassPOST ?la ?lo)
        (snd (updateLocation_osm sampleBrowser ?la ?lo startPage))
   \<and> recentred startPage ?la ?lo (PizzaPlacesGET ?la ?lo)
        (snd (geolocationFound_api sampleBrowser (4885 / 100) (235 / 100) startPage))
   \<and> recentred startPage ?la ?lo (PizzaPlacesGET ?la ?lo)
        (searchCity_api_settled sampleBrowser (Parsed parisEnvelope) startPage)
   \<and> recentred startPage ?la ?lo (PizzaPlacesGET ?la ?lo)
        (searchCity_cfg_settled sampleBrowser localApi (Parsed parisEnvelope) startPage)
   \<and> recentred startPage ?la ?lo (OverpassPOST ?la ?lo)
        (searchCity_osm_settled sampleBrowser (Parsed (JArr [parisMatch])) startPage)
   \<and> recentred startPage ?la ?lo (OverpassPOST ?la ?lo)
        (searchCity_cfg_settled sampleBrowser overpassApi (Parsed (JArr [parisMatch])) startPage)
   \<and> recentred startPage ?la ?lo (OverpassPOST ?la ?lo)
        (searchCurrentArea_osm parisCenter 12 startPage)"
    using T [where API_BASE = overpassApi] T [where API_BASE = localApi] v e m z u c
    by simp
  then have q: "requests (searchCity_osm_settled sampleBrowser (Parsed (JArr [parisMatch])) startPage)
        = [OverpassPOST ?la ?lo]"
    by (simp add: recentred_def startPage_def)
  from v e m z u r q show ?thesis by simp
qed

subsection \<open>A city that is not found\<close>

text \<open>
  Claim C7. When the geocoding request of \<^verbatim>\<open>searchCity\<close> returns no match (an empty
  list), the search fails as not found: the Overpass-only script shows the status
  \<^verbatim>\<open>City not found\<close> (lines 714-720), the configurable script throws an Error with that
  message and shows \<^verbatim>\<open>City search error: City not found\<close> (lines 467 and 482-485), both
  with class \<^verbatim>\<open>error\<close>, and nothing else changes: the center stays and no request is
  issued. The status differs from the one a rejected request gives; in the configurable
  script, where both pass through the same catch block, it differs whenever the message
  of the rejection is not the text \<^verbatim>\<open>City not found\<close> itself.
\<close>

theorem no_match_is_reported_as_not_found:
  "(usesOverpass API_BASE \<longrightarrow>
      searchCity_cfg_settled B API_BASE (Parsed (JArr [])) s
        = s\<lparr>status := (''City search error: City not found'', ''error'')\<rparr>)
   \<and> searchCity_osm_settled B (Parsed (JArr [])) s
        = s\<lparr>status := (''City not found'', ''error'')\<rparr>
   \<and> status (searchCity_osm_settled B (Rejected m) s)
        \<noteq> status (searchCity_osm_settled B (Parsed (JArr [])) s)
   \<and> (usesOverpass API_BASE \<and> m \<noteq> ''City not found'' \<longrightarrow>
        status (searchCity_cfg_settled B API_BASE (Rejected m) s)
          \<noteq> status (searchCity_cfg_settled B API_BASE (Parsed (JArr [])) s))"
  by (simp add: searchCity_cfg_settled_def searchCity_cfg_try_def searchCity_osm_settled_def
      searchCity_osm_try_def readProp_def gt_zero_def updateStatus_def)

theorem no_match_is_reported_as_not_found_witness:
  "usesOverpass overpassApi
   \<and> ''Failed to fetch'' \<noteq> ''City not found''
   \<and> searchCity_cfg_settled sampleBrowser overpassApi (Parsed (JArr [])) startPage
        = startPage\<lparr>status := (''City search error: City not found'', ''error'')\<rparr>
   \<and> searchCity_osm_settled sampleBrowser (Parsed (JArr [])) startPage
        = startPage\<lparr>status := (''City not found'', ''error'')\<rparr>
   \<and> status (searchCity_osm_settled sampleBrowser (Rejected ''Failed to fetch'') startPage)
        \<noteq> status (searchCity_osm_settled sampleBrowser (Parsed (JArr [])) startPage)
   \<and> status (searchCity_cfg_settled sampleBrowser overpassApi (Rejected ''Failed to fetch'')
                startPage)
        \<noteq> status (searchCity_cfg_settled sampleBrowser overpassApi (Parsed (JArr [])) startPage)"
proof -
  have u: "usesOverpass overpassApi" by (simp add: usesOverpass_def overpassApi_def)
  have d: "''Failed to fetch'' \<noteq> ''City not found''" by simp
  from no_match_is_reported_as_not_found
    [of overpassApi sampleBrowser startPage "''Failed to fetch''"] u d
  show ?thesis by blast
qed

subsection \<open>Overlapping loads\<close>

lemma forEachPlace_all:
  "\<forall>p\<in>set ps. renderable B p \<Longrightarrow>
     forEachPlace B ps s = (None, s\<lparr>markers := markers s @ ps\<rparr>)"
  by (induction ps arbitrary: s) (simp_all add: renderable_def)

lemma showPlaces_all:
  "\<forall>p\<in>set ps. renderable B p \<Longrightarrow>
     showPlaces B (JArr ps) s
       = (None, s\<lparr>markers := ps, renderCalls := renderCalls s + 1,
                  status := (''Found '' @ numberToString B (real (length ps))
                               @ '' pizza places!'', ''success'')\<rparr>)"
  by (simp add: showPlaces_def addPizzaMarkers_def forEachPlace_all updateStatus_def)

lemma load_api_renders:
  assumes "\<forall>p\<in>set psA. renderable B p"
      and "truthy (getProp dataA ''success'')" and "getProp dataA ''places'' = JArr psA"
  shows "markers (loadPizzaPlaces_api_settled B (Parsed dataA) t) = psA"
proof -
  have nd: "\<not> nullish dataA" using assms(2) getProp_nullish by fastforce
  show ?thesis
    using nd assms(2,3)
    by (simp add: loadPizzaPlaces_api_settled_def loadPizzaPlaces_api_try_def readProp_def
        showPlaces_all [OF assms(1)] showLoading_def)
qed

lemma load_cfg_api_renders:
  assumes "\<forall>p\<in>set psA. renderable B p" and "\<not> usesOverpass API_BASE"
      and "truthy (getProp dataA ''success'')" and "getProp dataA ''places'' = JArr psA"
  shows "markers (loadPizzaPlaces_cfg_settled B API_BASE (Parsed dataA) t) = psA"
proof -
  have nd: "\<not> nullish dataA" using assms(3) getProp_nullish by fastforce
  show ?thesis
    using nd assms(2,3,4)
    by (simp add: loadPizzaPlaces_cfg_settled_def loadPizzaPlaces_cfg_try_def readProp_def
        showPlaces_all [OF assms(1)] showLoading_def)
qed

lemma load_cfg_osm_renders:
  assumes "\<forall>p\<in>set psA. renderable B p" and "usesOverpass API_BASE"
      and "overpassPlaces_cfg B dataA = Inr psA"
  shows "markers (loadPizzaPlaces_cfg_settled B API_BASE (Parsed dataA) t) = psA"
  using assms(2,3)
  by (simp add: loadPizzaPlaces_cfg_settled_def loadPizzaPlaces_cfg_try_def
        showPlaces_all [OF assms(1)] showLoading_def)

lemma load_osm_renders:
  assumes "\<forall>p\<in>set psA. renderable B p" and "overpassPlaces_osm B dataA = Inr psA"
  shows "markers (loadPizzaPlaces_osm_settled B (Parsed dataA) t) = psA"
  using assms(2)
  by (simp add: loadPizzaPlaces_osm_settled_def loadPizzaPlaces_osm_try_def
        showPlaces_all [OF assms(1)] showLoading_def)

text \<open>
  Claim C8, as the code has it. The claim says that when load A is issued before load B
  and the reply to B arrives first, the markers at the end are those of B. In the
  configurable script, with the local Python API: after the reply to B the markers are
  the place of B; the reply to A, which arrives later, clears them and renders the place
  of A. The markers at the end are those of A, not of B.
\<close>

theorem earlier_reply_is_overwritten:
  "markers (loadPizzaPlaces_cfg_settled sampleBrowser localApi (Parsed envelopeB)
              (loadPizzaPlaces_cfg localApi (loadPizzaPlaces_cfg localApi startPage)))
     = [placeB]
   \<and> markers (loadPizzaPlaces_cfg_settled sampleBrowser localApi (Parsed envelopeA)
                (loadPizzaPlaces_cfg_settled sampleBrowser localApi (Parsed envelopeB)
                   (loadPizzaPlaces_cfg localApi (loadPizzaPlaces_cfg localApi startPage))))
       = [placeA]
   \<and> markers (loadPizzaPlaces_cfg_settled sampleBrowser localApi (Parsed envelopeA)
                (loadPizzaPlaces_cfg_settled sampleBrowser localApi (Parsed envelopeB)
                   (loadPizzaPlaces_cfg localApi (loadPizzaPlaces_cfg localApi startPage))))
       \<noteq> [placeB]"
  by (simp add: loadPizzaPlaces_cfg_settled_def loadPizzaPlaces_cfg_try_def readProp_def
      usesOverpass_def localApi_def envelopeA_def envelopeB_def placeA_def placeB_def
      showPlaces_def addPizzaMarkers_def sampleBrowser_def updateStatus_def showLoading_def)

text \<open>
  Claim C8, amended. When load A is issued before load B, the reply to B arrives first
  and the reply to A after it, the markers at the end are those of A, whatever the reply
  to B was: the reply that arrives last wins. This holds in all three scripts when the
  reply to A is a result (a success envelope with a list of places, or an Overpass
  response that normalises to a list of places) whose places can all be rendered.
\<close>

theorem later_reply_wins:
  assumes "\<forall>p\<in>set psA. renderable B p"
  shows "(truthy (getProp dataA ''success'') \<and> getProp dataA ''places'' = JArr psA \<longrightarrow>
            markers (loadPizzaPlaces_api_settled B (Parsed dataA)
                      (loadPizzaPlaces_api_settled B replyB
                        (loadPizzaPlaces_api (loadPizzaPlaces_api s)))) = psA)
       \<and> (\<not> usesOverpass API_BASE \<and> truthy (getProp dataA ''success'')
            \<and> getProp dataA ''places'' = JArr psA \<longrightarrow>
            markers (loadPizzaPlaces_cfg_settled B API_BASE (Parsed dataA)
                      (loadPizzaPlaces_cfg_settled B API_BASE replyB
                        (loadPizzaPlaces_cfg API_BASE (loadPizzaPlaces_cfg API_BASE s)))) = psA)
       \<and> (usesOverpass API_BASE \<and> overpassPlaces_cfg B dataA = Inr psA \<longrightarrow>
            markers (loadPizzaPlaces_cfg_settled B API_BASE (Parsed dataA)
                      (loadPizzaPlaces_cfg_settled B API_BASE replyB
                        (loadPizzaPlaces_cfg API_BASE (loadPizzaPlaces_cfg API_BASE s)))) = psA)
       \<and> (overpassPlaces_osm B dataA = Inr psA \<longrightarrow>
            markers (loadPizzaPlaces_osm_settled B (Parsed dataA)
                      (loadPizzaPlaces_osm_settled B replyB
                        (loadPizzaPlaces_osm (loadPizzaPlaces_osm s)))) = psA)"
  using load_api_renders [OF assms] load_cfg_api_renders [OF assms]
    load_cfg_osm_renders [OF assms] load_osm_renders [OF assms]
  by blast

theorem later_reply_wins_witness:
  "renderable sampleBrowser placeA
   \<and> truthy (getProp envelopeA ''success'')
   \<and> getProp envelopeA ''places'' = JArr [placeA]
   \<and> \<not> usesOverpass localApi
   \<and> usesOverpass overpassApi
   \<and> markers (loadPizzaPlaces_api_settled sampleBrowser (Parsed envelopeA)
                (loadPizzaPlaces_api_settled sampleBrowser (Parsed envelopeB)
                   (loadPizzaPlaces_api (loadPizzaPlaces_api startPage)))) = [placeA]
   \<and> markers (loadPizzaPlaces_cfg_settled sampleBrowser localApi (Parsed envelopeA)
                (loadPizzaPlaces_cfg_settled sampleBrowser localApi (Parsed envelopeB)
                   (loadPizzaPlaces_cfg localApi (loadPizzaPlaces_cfg localApi startPage))))
       = [placeA]
   \<and> (\<exists>ps. overpassPlaces_cfg sampleBrowser nodeResponse = Inr ps
          \<and> list_all (renderable sampleBrowser) ps
          \<and> markers (loadPizzaPlaces_cfg_settled sampleBrowser overpassApi (Parsed nodeResponse)
                       (loadPizzaPlaces_cfg_settled sampleBrowser overpassApi
                          (Rejected ''Failed to fetch'')
                          (loadPizzaPlaces_cfg overpassApi
                             (loadPizzaPlaces_cfg overpassApi startPage)))) = ps)
   \<and> (\<exists>ps. overpassPlaces_osm sampleBrowser nodeResponse = Inr ps
          \<and> list_all (renderable sampleBrowser) ps
          \<and> markers (loadPizzaPlaces_osm_settled sampleBrowser (Parsed nodeResponse)
                       (loadPizzaPlaces_osm_settled sampleBrowser (Rejected ''Failed to fetch'')
                          (loadPizzaPlaces_osm (loadPizzaPlaces_osm startPage)))) = ps)"
proof -
  have a: "renderable sampleBrowser placeA"
    by (simp add: renderable_def placeA_def sampleBrowser_def)
  then have all: "\<forall>p\<in>set [placeA]. renderable sampleBrowser p" by simp
  have e: "truthy (getProp envelopeA ''success'')" "getProp envelopeA ''places'' = JArr [placeA]"
    by (simp_all add: envelopeA_def)
  have u: "\<not> usesOverpass localApi" "usesOverpass overpassApi"
    by (simp_all add: usesOverpass_def overpassApi_def localApi_def)
  have 1: "markers (loadPizzaPlaces_api_settled sampleBrowser (Parsed envelopeA)
                (loadPizzaPlaces_api_settled sampleBrowser (Parsed envelopeB)
                   (loadPizzaPlaces_api (loadPizzaPlaces_api startPage)))) = [placeA]"
    using later_reply_wins [OF all, where dataA = envelopeA and replyB = "Parsed envelopeB"
        and s = startPage] e by blast
  have 2: "markers (loadPizzaPlaces_cfg_settled sampleBrowser localApi (Parsed envelopeA)
                (loadPizzaPlaces_cfg_settled sampleBrowser localApi (Parsed envelopeB)
                   (loadPizzaPlaces_cfg localApi (loadPizzaPlaces_cfg localApi startPage))))
       = [placeA]"
    using later_reply_wins [OF all, where dataA = envelopeA and replyB = "Parsed envelopeB"
        and s = startPage and API_BASE = localApi] e u by blast
  have "\<exists>ps. overpassPlaces_cfg sampleBrowser nodeResponse = Inr ps
          \<and> list_all (renderable sampleBrowser) ps"
    by (simp add: overpassPlaces_cfg_def readProp_def nodeResponse_def normalizeElement_cfg_def
        place_cfg_def Let_def js_or_def renderable_def sampleBrowser_def)
  then obtain ps where ps: "overpassPlaces_cfg sampleBrowser nodeResponse = Inr ps"
      "\<forall>p\<in>set ps. renderable sampleBrowser p"
    by (auto simp: list_all_iff)
  have 3: "markers (loadPizzaPlaces_cfg_settled sampleBrowser overpassApi (Parsed nodeResponse)
                       (loadPizzaPlaces_cfg_settled sampleBrowser overpassApi
                          (Rejected ''Failed to fetch'')
                          (loadPizzaPlaces_cfg overpassApi
                             (loadPizzaPlaces_cfg overpassApi startPage)))) = ps"
    using later_reply_wins [OF ps(2), where dataA = nodeResponse
        and replyB = "Rejected ''Failed to fetch''" and s = startPage
        and API_BASE = overpassApi] ps(1) u by blast
  have "\<exists>qs. overpassPlaces_osm sampleBrowser nodeResponse = Inr qs
          \<and> list_all (renderable sampleBrowser) qs"
    by (simp add: overpassPlaces_osm_def readProp_def nodeResponse_def normalizeElement_osm_def
        Let_def js_or_def optProp_def renderable_def sampleBrowser_def)
  then obtain qs where qs: "overpassPlaces_osm sampleBrowser nodeResponse = Inr qs"
      "\<forall>p\<in>set qs. renderable sampleBrowser p"
    by (auto simp: list_all_iff)
  have 4: "markers (loadPizzaPlaces_osm_settled sampleBrowser (Parsed nodeResponse)
                       (loadPizzaPlaces_osm_settled sampleBrowser (Rejected ''Failed to fetch'')
                          (loadPizzaPlaces_osm (loadPizzaPlaces_osm startPage)))) = qs"
    using later_reply_wins [OF qs(2), where dataA = nodeResponse
        and replyB = "Rejected ''Failed to fetch''" and s = startPage] qs(1) by blast
  from ps 3 have 5: "\<exists>ps. overpassPlaces_cfg sampleBrowser nodeResponse = Inr ps
          \<and> list_all (renderable sampleBrowser) ps
          \<and> markers (loadPizzaPlaces_cfg_settled sampleBrowser overpassApi (Parsed nodeResponse)
                       (loadPizzaPlaces_cfg_settled sampleBrowser overpassApi
                          (Rejected ''Failed to fetch'')
                          (loadPizzaPlaces_cfg overpassApi
                             (loadPizzaPlaces_cfg overpassApi startPage)))) = ps"
    by (auto simp: list_all_iff)
  from qs 4 have 6: "\<exists>ps. overpassPlaces_osm sampleBrowser nodeResponse = Inr ps
          \<and> list_all (renderable sampleBrowser) ps
          \<and> markers (loadPizzaPlaces_osm_settled sampleBrowser (Parsed nodeResponse)
                       (loadPizzaPlaces_osm_settled sampleBrowser (Rejected ''Failed to fetch'')
                          (loadPizzaPlaces_osm (loadPizzaPlaces_osm startPage)))) = ps"
    by (auto simp: list_all_iff)
  from a e u 1 2 5 6 show ?thesis by blast
qed

end
